theory Spec2Isabelle
  imports Complex_Main
begin

section \<open>Data model of the floating widget (meet-pip component)\<close>

text \<open>
  The component computes with JavaScript numbers. They are modelled as mathematical reals:
  every constant of the source is a decimal fraction and every operation used by the
  position controller is field arithmetic, \<open>Math.max\<close>, \<open>Math.min\<close> or \<open>Math.abs\<close>.
  Rounding, infinities and NaN are outside the model.

  An object \<open>{x, y}\<close> (position, velocity, target) is a pair; \<open>fst\<close> reads \<open>x\<close> and
  \<open>snd\<close> reads \<open>y\<close>.
\<close>

datatype side = Left | Right

datatype vertical = Top | Bottom | Center

type_synonym vec = "real \<times> real"

record dims =
  width :: real
  height :: real

record viewport =
  innerWidth :: real
  innerHeight :: real

record bounds =
  minX :: real
  maxX :: real
  minY :: real
  maxY :: real

subsection \<open>Physics constants\<close>

definition FRICTION :: real where
  "FRICTION = 0.88"

definition BOUNCE_DAMPING :: real where
  "BOUNCE_DAMPING = 0.3"

definition VIEWPORT_PADDING :: real where
  "VIEWPORT_PADDING = 24"

definition MAX_VELOCITY :: real where
  "MAX_VELOCITY = 15"

definition EYE_TRACKING_SPRING :: real where
  "EYE_TRACKING_SPRING = 0.08"

definition SPRING_DAMPING :: real where
  "SPRING_DAMPING = 0.85"

lemmas physics_constants =
  FRICTION_def BOUNCE_DAMPING_def VIEWPORT_PADDING_def MAX_VELOCITY_def
  EYE_TRACKING_SPRING_def SPRING_DAMPING_def

subsection \<open>Bounds calculator\<close>

text \<open>
  \<open>getViewportBounds\<close> reads the anchor side (a prop), the current dimensions (a ref) and
  the live window size; here they are arguments.
\<close>

definition getViewportBounds :: "side \<Rightarrow> dims \<Rightarrow> viewport \<Rightarrow> bounds" where
  "getViewportBounds sd d vp =
     (let w = width d; h = height d;
          viewportWidth = innerWidth vp; viewportHeight = innerHeight vp
      in if sd = Left then
           \<lparr> minX = 0,
             maxX = viewportWidth - w - VIEWPORT_PADDING * 2,
             minY = VIEWPORT_PADDING + h / 2 - viewportHeight / 2,
             maxY = viewportHeight / 2 - VIEWPORT_PADDING - h / 2 \<rparr>
         else
           \<lparr> minX = - (viewportWidth - VIEWPORT_PADDING * 2 - w),
             maxX = 0,
             minY = VIEWPORT_PADDING + h / 2 - viewportHeight / 2,
             maxY = viewportHeight / 2 - VIEWPORT_PADDING - h / 2 \<rparr>)"

definition clampPosition :: "side \<Rightarrow> dims \<Rightarrow> viewport \<Rightarrow> vec \<Rightarrow> vec" where
  "clampPosition sd d vp pos =
     (let b = getViewportBounds sd d vp
      in (max (minX b) (min (maxX b) (fst pos)),
          max (minY b) (min (maxY b) (snd pos))))"

definition inBounds :: "bounds \<Rightarrow> vec \<Rightarrow> bool" where
  "inBounds b pos \<longleftrightarrow>
     minX b \<le> fst pos \<and> fst pos \<le> maxX b \<and> minY b \<le> snd pos \<and> snd pos \<le> maxY b"

subsection \<open>Anchor-side change: coordinate remap\<close>

text \<open>
  The first half of the side-change effect: the stored \<open>x\<close> is turned into an absolute
  screen coordinate under the old anchor and re-derived under the new one.
\<close>

definition absoluteScreenX :: "side \<Rightarrow> real \<Rightarrow> real \<Rightarrow> real \<Rightarrow> real" where
  "absoluteScreenX oldSide w viewportWidth oldX =
     (if oldSide = Left then VIEWPORT_PADDING + oldX
      else viewportWidth - VIEWPORT_PADDING - w + oldX)"

definition newPosX :: "side \<Rightarrow> real \<Rightarrow> real \<Rightarrow> real \<Rightarrow> real" where
  "newPosX newSide w viewportWidth screenX =
     (if newSide = Left then screenX - VIEWPORT_PADDING
      else screenX - viewportWidth + VIEWPORT_PADDING + w)"

definition convertX :: "side \<Rightarrow> side \<Rightarrow> real \<Rightarrow> real \<Rightarrow> real \<Rightarrow> real" where
  "convertX oldSide newSide w viewportWidth oldX =
     newPosX newSide w viewportWidth (absoluteScreenX oldSide w viewportWidth oldX)"

subsection \<open>Component state\<close>

text \<open>
  The refs and the state of the component that the position controller reads and writes.
  \<open>side\<close> and \<open>targetVertical\<close> are the props of the last render (\<open>prevSideRef\<close> holds
  the same side between two renders); \<open>animationFrame\<close> says whether a frame is
  scheduled (\<open>animationFrameRef.current !== null\<close>).
\<close>

record dragStart =
  startX :: real
  startY :: real
  offsetX :: real
  offsetY :: real

record resizeStart =
  mouseX :: real
  mouseY :: real
  startWidth :: real
  startHeight :: real
  anchorX :: real
  anchorY :: real
  startPosX :: real
  startPosY :: real
  wrapperLeft :: real

record pip =
  side :: side
  targetVertical :: "vertical option"
  currentDimensions :: dims
  currentPosition :: vec
  velocity :: vec
  targetPosition :: "vec option"
  animationFrame :: bool
  isDragging :: bool
  isResizing :: bool
  dragStartPos :: dragStart
  lastMousePos :: vec
  lastMouseTime :: real
  resizeStartRef :: resizeStart

definition pipBounds :: "viewport \<Rightarrow> pip \<Rightarrow> bounds" where
  "pipBounds vp s = getViewportBounds (side s) (currentDimensions s) vp"

subsection \<open>Physics engine\<close>

text \<open>
  The spring block of \<open>updatePhysics\<close>: with a target, the spring force and the spring
  damping change the velocity; when both displacements are under 1 and both new velocity
  components under 0.3 the position snaps to the target, the velocity is zeroed and the
  target cleared. The result is \<open>(newPos, newVel, target)\<close>.
\<close>

definition springStep :: "vec \<Rightarrow> vec \<Rightarrow> vec option \<Rightarrow> vec \<times> vec \<times> vec option" where
  "springStep currentPos vel tgt =
     (case tgt of
        None \<Rightarrow> (currentPos, vel, None)
      | Some target \<Rightarrow>
          (let dx = fst target - fst currentPos;
               dy = snd target - snd currentPos;
               nvx = (fst vel + dx * EYE_TRACKING_SPRING) * SPRING_DAMPING;
               nvy = (snd vel + dy * EYE_TRACKING_SPRING) * SPRING_DAMPING
           in if \<bar>dx\<bar> < 1 \<and> \<bar>dy\<bar> < 1 \<and> \<bar>nvx\<bar> < 0.3 \<and> \<bar>nvy\<bar> < 0.3
              then (target, (0, 0), None)
              else (currentPos, (nvx, nvy), Some target)))"

definition clampVelocity :: "real \<Rightarrow> real" where
  "clampVelocity v = max (- MAX_VELOCITY) (min MAX_VELOCITY v)"

text \<open>The boundary check of one axis: \<open>(position, velocity)\<close> after the bounce.\<close>

definition bounceAxis :: "real \<Rightarrow> real \<Rightarrow> real \<Rightarrow> real \<Rightarrow> real \<times> real" where
  "bounceAxis lo hi p v =
     (if p < lo then (lo, v * (- BOUNCE_DAMPING))
      else if p > hi then (hi, v * (- BOUNCE_DAMPING))
      else (p, v))"

definition updatePhysics :: "viewport \<Rightarrow> pip \<Rightarrow> pip" where
  "updatePhysics vp s =
     (case springStep (currentPosition s) (velocity s) (targetPosition s) of
        (pos0, vel0, tgt) \<Rightarrow>
          (let px = fst pos0 + fst vel0;
               py = snd pos0 + snd vel0;
               vx = clampVelocity (fst vel0 * FRICTION);
               vy = clampVelocity (snd vel0 * FRICTION);
               b = pipBounds vp s;
               bx = bounceAxis (minX b) (maxX b) px vx;
               by = bounceAxis (minY b) (maxY b) py vy;
               newVel = (if \<bar>snd bx\<bar> < 0.05 \<and> \<bar>snd by\<bar> < 0.05 \<and> tgt = None
                         then (0, 0) else (snd bx, snd by))
           in s\<lparr> currentPosition := (fst bx, fst by),
                 velocity := newVel,
                 targetPosition := tgt,
                 animationFrame :=
                   (\<bar>fst newVel\<bar> > 0.005 \<or> \<bar>snd newVel\<bar> > 0.005 \<or> tgt \<noteq> None) \<rparr>))"

text \<open>\<open>startPhysics\<close> cancels a scheduled frame and requests a new one.\<close>

definition startPhysics :: "pip \<Rightarrow> pip" where
  "startPhysics s = s\<lparr> animationFrame := True \<rparr>"

text \<open>
  The browser runs \<open>updatePhysics\<close> once per animation frame while a frame is scheduled.
  \<open>frames n\<close> is the state after \<open>n\<close> animation frames with no other event.
\<close>

definition frame :: "viewport \<Rightarrow> pip \<Rightarrow> pip" where
  "frame vp s = (if animationFrame s then updatePhysics vp s else s)"

primrec frames :: "nat \<Rightarrow> viewport \<Rightarrow> pip \<Rightarrow> pip" where
  "frames 0 vp s = s"
| "frames (Suc n) vp s = frames n vp (frame vp s)"

subsection \<open>Interaction controller\<close>

text \<open>
  \<open>handleDragStart\<close>: \<open>onControl\<close> says that the pointer went down on a button or on the
  resize handle, \<open>mounted\<close> that \<open>wrapperRef.current\<close> is set.
\<close>

definition handleDragStart :: "bool \<Rightarrow> bool \<Rightarrow> vec \<Rightarrow> real \<Rightarrow> pip \<Rightarrow> pip" where
  "handleDragStart onControl mounted client now s =
     (if onControl \<or> isResizing s then s
      else if mounted then
        s\<lparr> isDragging := True,
           animationFrame := False,
           velocity := (0, 0),
           targetPosition := None,
           dragStartPos := \<lparr> startX = fst client, startY = snd client,
                             offsetX = fst (currentPosition s),
                             offsetY = snd (currentPosition s) \<rparr>,
           lastMousePos := client,
           lastMouseTime := now \<rparr>
      else s)"

definition handleDragMove :: "viewport \<Rightarrow> vec \<Rightarrow> real \<Rightarrow> pip \<Rightarrow> pip" where
  "handleDragMove vp client now s =
     (if \<not> isDragging s then s
      else
        (let deltaX = fst client - startX (dragStartPos s);
             deltaY = snd client - startY (dragStartPos s);
             newPos = (offsetX (dragStartPos s) + deltaX, offsetY (dragStartPos s) + deltaY);
             clampedPos = clampPosition (side s) (currentDimensions s) vp newPos;
             dt = max 1 (now - lastMouseTime s) / 16.67;
             dx = fst client - fst (lastMousePos s);
             dy = snd client - snd (lastMousePos s)
         in s\<lparr> velocity := (if dt > 0 then ((dx / dt) * 0.25, (dy / dt) * 0.25)
                              else velocity s),
               lastMousePos := client,
               lastMouseTime := now,
               currentPosition := clampedPos \<rparr>))"

definition handleDragEnd :: "viewport \<Rightarrow> pip \<Rightarrow> pip" where
  "handleDragEnd vp s =
     (let currentPos = currentPosition s;
          clampedPos = clampPosition (side s) (currentDimensions s) vp currentPos;
          wasClamped = (fst clampedPos \<noteq> fst currentPos \<or> snd clampedPos \<noteq> snd currentPos);
          s1 = s\<lparr> isDragging := False,
                   currentPosition := (if wasClamped then clampedPos else currentPos) \<rparr>
      in if \<bar>fst (velocity s)\<bar> > 0.05 \<or> \<bar>snd (velocity s)\<bar> > 0.05 \<or> wasClamped
         then startPhysics s1 else s1)"

text \<open>
  \<open>handleResizeStart\<close>: \<open>mounted\<close> says that both DOM refs are set; \<open>rectRight\<close>,
  \<open>rectTop\<close> and \<open>wrapperRectLeft\<close> are read from the layout.
\<close>

definition handleResizeStart ::
    "bool \<Rightarrow> vec \<Rightarrow> real \<Rightarrow> real \<Rightarrow> real \<Rightarrow> pip \<Rightarrow> pip" where
  "handleResizeStart mounted client rectRight rectTop wrapperRectLeft s =
     (if mounted then
        s\<lparr> isResizing := True,
           animationFrame := False,
           velocity := (0, 0),
           targetPosition := None,
           resizeStartRef :=
             \<lparr> mouseX = fst client, mouseY = snd client,
               startWidth = width (currentDimensions s),
               startHeight = height (currentDimensions s),
               anchorX = rectRight, anchorY = rectTop,
               startPosX = fst (currentPosition s),
               startPosY = snd (currentPosition s),
               wrapperLeft = wrapperRectLeft \<rparr> \<rparr>
      else s)"

text \<open>
  The side-change effect, run after a render with the props \<open>newSide\<close> and \<open>tv\<close>: nothing
  but the props change when the side is the old one; otherwise the position is remapped,
  the target set and the initial velocity seeded, and the physics started.
\<close>

definition targetYFor :: "vertical option \<Rightarrow> real \<Rightarrow> real \<Rightarrow> real" where
  "targetYFor tv pipHeight viewportHeight =
     (if tv = Some Top then 24 + pipHeight / 2 - viewportHeight / 2
      else if tv = Some Bottom then viewportHeight / 2 - 24 - pipHeight / 2
      else 0)"

definition sideChangeEffect :: "viewport \<Rightarrow> side \<Rightarrow> vertical option \<Rightarrow> pip \<Rightarrow> pip" where
  "sideChangeEffect vp newSide tv s =
     (if side s = newSide then s\<lparr> targetVertical := tv \<rparr>
      else
        (let oldPos = currentPosition s;
             w = width (currentDimensions s);
             nx = convertX (side s) newSide w (innerWidth vp) (fst oldPos);
             convertedPos = (nx, snd oldPos);
             targetPos = (0, targetYFor tv (height (currentDimensions s)) (innerHeight vp));
             dx = fst targetPos - nx;
             dy = snd targetPos - snd oldPos;
             distance = sqrt (dx * dx + dy * dy);
             initialSpeed = max (distance * 0.1) 2
         in startPhysics
              (s\<lparr> side := newSide,
                  targetVertical := tv,
                  currentPosition := convertedPos,
                  targetPosition := Some targetPos,
                  velocity := (if distance > 0.5
                               then ((dx / distance) * initialSpeed, (dy / distance) * initialSpeed)
                               else (0, 0)) \<rparr>)))"

subsection \<open>Zone report to the parent\<close>

text \<open>
  \<open>updateDOM\<close> (per frame, through \<open>onPositionChange\<close>) and \<open>handleDragEnd\<close> (through
  \<open>onDragEnd\<close>) compute the widget's zone from the screen position of its centre. The
  reported side has the type \<open>"left" | "right"\<close> of the source: \<^typ>\<open>side\<close>.
\<close>

definition pipCenterX :: "side \<Rightarrow> dims \<Rightarrow> viewport \<Rightarrow> vec \<Rightarrow> real" where
  "pipCenterX sd d vp pos =
     (if sd = Left then VIEWPORT_PADDING + width d / 2 + fst pos
      else innerWidth vp - VIEWPORT_PADDING - width d / 2 + fst pos)"

definition zoneOf :: "side \<Rightarrow> dims \<Rightarrow> viewport \<Rightarrow> vec \<Rightarrow> side \<times> vertical" where
  "zoneOf sd d vp pos =
     (let c = pipCenterX sd d vp pos;
          leftThirdBoundary = innerWidth vp / 3;
          rightThirdBoundary = (innerWidth vp * 2) / 3;
          reportedSide = (if c < leftThirdBoundary then Left
                          else if c > rightThirdBoundary then Right
                          else sd);
          topThirdBoundary = - innerHeight vp / 6;
          bottomThirdBoundary = innerHeight vp / 6;
          vert = (if snd pos < topThirdBoundary then Top
                  else if snd pos > bottomThirdBoundary then Bottom
                  else Center)
      in (reportedSide, vert))"

text \<open>
  The report of \<open>updateDOM\<close>: none when the wrapper is not mounted or the parent passed no
  \<open>onPositionChange\<close>.
\<close>

definition updateDOM_report ::
    "bool \<Rightarrow> bool \<Rightarrow> side \<Rightarrow> dims \<Rightarrow> viewport \<Rightarrow> vec \<Rightarrow> (side \<times> vertical) option" where
  "updateDOM_report mounted hasCallback sd d vp pos =
     (if \<not> mounted then None
      else if hasCallback then Some (zoneOf sd d vp pos)
      else None)"

text \<open>
  The report of \<open>handleDragEnd\<close>, computed from the clamped position; none when the parent
  passed no \<open>onDragEnd\<close>.
\<close>

definition handleDragEnd_report ::
    "bool \<Rightarrow> viewport \<Rightarrow> pip \<Rightarrow> (side \<times> vertical) option" where
  "handleDragEnd_report hasCallback vp s =
     (if hasCallback
      then Some (zoneOf (side s) (currentDimensions s) vp
                   (clampPosition (side s) (currentDimensions s) vp (currentPosition s)))
      else None)"

subsection \<open>Event sequences\<close>

text \<open>
  The events that move the widget. The window listeners of a drag exist only while
  \<open>isDragging\<close> holds, and a frame runs only when one is scheduled. A drag release also
  makes the parent set the side prop to the reported side, which runs the side-change
  effect (with no vertical target).
\<close>

datatype event =
    DragStart vec real
  | DragMove vec real
  | DragEnd
  | Frame
  | SideChange side "vertical option"

definition dragRelease :: "viewport \<Rightarrow> pip \<Rightarrow> pip" where
  "dragRelease vp s =
     (let s1 = handleDragEnd vp s;
          finalSide = fst (zoneOf (side s) (currentDimensions s) vp (currentPosition s1))
      in sideChangeEffect vp finalSide None s1)"

fun step :: "viewport \<Rightarrow> event \<Rightarrow> pip \<Rightarrow> pip" where
  "step vp (DragStart client now) s = handleDragStart False True client now s"
| "step vp (DragMove client now) s = handleDragMove vp client now s"
| "step vp DragEnd s = (if isDragging s then dragRelease vp s else s)"
| "step vp Frame s = frame vp s"
| "step vp (SideChange newSide tv) s = sideChangeEffect vp newSide tv s"

fun run :: "viewport \<Rightarrow> event list \<Rightarrow> pip \<Rightarrow> pip" where
  "run vp [] s = s"
| "run vp (e # es) s = run vp es (step vp e s)"

text \<open>The padded widget fits into the viewport: the bounds rectangle is not empty.\<close>

definition fits :: "dims \<Rightarrow> viewport \<Rightarrow> bool" where
  "fits d vp \<longleftrightarrow>
     width d + 2 * VIEWPORT_PADDING \<le> innerWidth vp \<and>
     height d + 2 * VIEWPORT_PADDING \<le> innerHeight vp"

text \<open>The state of a freshly mounted component.\<close>

definition initialPip :: "side \<Rightarrow> pip" where
  "initialPip sd =
     \<lparr> side = sd, targetVertical = None,
       currentDimensions = \<lparr> width = 320, height = 280 \<rparr>,
       currentPosition = (0, 0), velocity = (0, 0), targetPosition = None,
       animationFrame = False, isDragging = False, isResizing = False,
       dragStartPos = \<lparr> startX = 0, startY = 0, offsetX = 0, offsetY = 0 \<rparr>,
       lastMousePos = (0, 0), lastMouseTime = 0,
       resizeStartRef = \<lparr> mouseX = 0, mouseY = 0, startWidth = 0, startHeight = 0,
                          anchorX = 0, anchorY = 0, startPosX = 0, startPosY = 0,
                          wrapperLeft = 0 \<rparr> \<rparr>"

text \<open>The snap test of the spring block, as a predicate of the state and its target.\<close>

definition snapCondition :: "pip \<Rightarrow> vec \<Rightarrow> bool" where
  "snapCondition s t \<longleftrightarrow>
     \<bar>fst t - fst (currentPosition s)\<bar> < 1 \<and> \<bar>snd t - snd (currentPosition s)\<bar> < 1 \<and>
     \<bar>(fst (velocity s) + (fst t - fst (currentPosition s)) * EYE_TRACKING_SPRING)
        * SPRING_DAMPING\<bar> < 0.3 \<and>
     \<bar>(snd (velocity s) + (snd t - snd (currentPosition s)) * EYE_TRACKING_SPRING)
        * SPRING_DAMPING\<bar> < 0.3"

text \<open>The engine at rest: zero velocity, no frame scheduled, no pending target.\<close>

definition settled :: "pip \<Rightarrow> bool" where
  "settled s \<longleftrightarrow> velocity s = (0, 0) \<and> \<not> animationFrame s \<and> targetPosition s = None"

text \<open>The viewport of the scenarios.\<close>

definition vp0 :: viewport where
  "vp0 = \<lparr> innerWidth = 1200, innerHeight = 800 \<rparr>"

text \<open>A run without target that is still scheduled, with both velocity components at most \<open>c\<close>.\<close>

definition moving :: "real \<Rightarrow> pip \<Rightarrow> bool" where
  "moving c s \<longleftrightarrow>
     animationFrame s \<and> targetPosition s = None \<and>
     \<bar>fst (velocity s)\<bar> \<le> c \<and> \<bar>snd (velocity s)\<bar> \<le> c \<and>
     (0.05 \<le> \<bar>fst (velocity s)\<bar> \<or> 0.05 \<le> \<bar>snd (velocity s)\<bar>)"

text \<open>
  The scenario of the fling: a drag of the freshly mounted widget (anchored left, at rest at
  the origin) is released with the stored fling velocity \<open>(8, 0)\<close>.
\<close>

definition fling :: pip where
  "fling = handleDragEnd vp0 ((initialPip Left)\<lparr> isDragging := True, velocity := (8, 0) \<rparr>)"

text \<open>The state of that run after \<open>k\<close> frames of free flight.\<close>

definition gliding :: "nat \<Rightarrow> pip \<Rightarrow> bool" where
  "gliding k s \<longleftrightarrow>
     targetPosition s = None \<and> side s = Left \<and>
     currentDimensions s = \<lparr> width = 320, height = 280 \<rparr> \<and> animationFrame s \<and>
     velocity s = (8 * FRICTION ^ k, 0) \<and>
     currentPosition s = (8 * (1 - FRICTION ^ k) / (1 - FRICTION), 0)"

text \<open>
  Auxiliaries of the convergence proof, one axis at a time, in the displacement
  \<open>d = target - position\<close>: the velocity the spring block computes, and a quadratic
  energy that every spring step shrinks by the factor 0.9.
\<close>

definition springEnergy :: "real \<Rightarrow> real \<Rightarrow> real" where
  "springEnergy d v = d * d - 3 * d * v + 20 * v * v"

definition springVel :: "real \<Rightarrow> real \<Rightarrow> real" where
  "springVel d v = (v + d * EYE_TRACKING_SPRING) * SPRING_DAMPING"

text \<open>A run towards the target \<open>t\<close> with the energy of both axes at most \<open>E\<close>.\<close>

definition springing :: "real \<Rightarrow> vec \<Rightarrow> pip \<Rightarrow> bool" where
  "springing E t s \<longleftrightarrow>
     targetPosition s = Some t \<and> animationFrame s \<and>
     springEnergy (fst t - fst (currentPosition s)) (fst (velocity s)) \<le> E \<and>
     springEnergy (snd t - snd (currentPosition s)) (snd (velocity s)) \<le> E"

text \<open>The terminal state of spring mode: at the target, at rest.\<close>

definition terminal :: "vec \<Rightarrow> pip \<Rightarrow> bool" where
  "terminal t s \<longleftrightarrow> currentPosition s = t \<and> settled s"

text \<open>
  The spring run of the scenarios: the freshly mounted widget, at rest at the left edge, is
  told to change to the right side with no vertical target. The side-change effect leaves it
  832 pixels left of its target \<open>(0, 0)\<close>, which lies on the right bound, with the seeded
  velocity \<open>(83.2, 0)\<close>.
\<close>

definition sideChanged :: pip where
  "sideChanged = sideChangeEffect vp0 Right None (initialPip Left)"

text \<open>
  Two states of the scenarios: a widget half a pixel left of its target and still moving,
  and a widget with a velocity far above the cap.
\<close>

definition nearTarget :: pip where
  "nearTarget = (initialPip Left)\<lparr> currentPosition := (100, 50), velocity := (0.2, - 0.1),
       targetPosition := Some (100.5, 50), animationFrame := True \<rparr>"

definition flung :: pip where
  "flung = (initialPip Left)\<lparr> velocity := (100, - 50), animationFrame := True \<rparr>"

section \<open>Data model of the eye tracker (parent component)\<close>

text \<open>
  The parent component owns the gaze classification, the cursor zone and the repositioning
  policy. Times are \<open>Date.now()\<close> in milliseconds. A pending \<open>setTimeout\<close> is the value
  of the ref that holds its handle; the callback's closure is stored with it. A handle
  left in the ref after \<open>clearTimeout\<close> is the same as no timer, since clearing it again
  does nothing.
\<close>

record debounce =
  due :: int
  pipAtSchedule :: "side \<times> vertical"
  cursorVerticalAtSchedule :: vertical

text \<open>
  \<open>targetVerticalState\<close> is the state \<open>targetVertical\<close> of the parent (the widget receives
  it as its prop of that name); \<open>commands\<close> is a log of the moves commanded by the
  debounce callback, kept for the statements only.
\<close>

record tracker =
  isTracking :: bool
  ballSide :: side
  targetVerticalState :: "vertical option"
  cursorSide :: "side option"
  cursorVertical :: vertical
  gazeSide :: "side option"
  lastDefinitiveGazeSide :: "side option"
  eyePosition :: "vec option"
  isCursorHoveringPip :: bool
  pipPosition :: "side \<times> vertical"
  isUserControllingPip :: bool
  targetVerticalRef :: "vertical option"
  reEngageTimerRef :: "int option"
  cursorMoveDebounceRef :: "debounce option"
  prevCursorSideRef :: "side option"
  gazeAtPipStartTimeRef :: "int option"
  animationRef :: bool
  commands :: "(side \<times> vertical) list"

subsection \<open>Gaze classifier\<close>

definition centerThreshold :: real where
  "centerThreshold = 0.05"

definition classifyGaze :: "real \<Rightarrow> side option" where
  "classifyGaze normalizedX =
     (if normalizedX < 0.5 - centerThreshold then Some Left
      else if normalizedX > 0.5 + centerThreshold then Some Right
      else None)"

text \<open>
  What one run of \<open>detect\<close> meets: the video not ready, the detector throwing, no face,
  a face without both iris centres, or a face whose landmarks give the normalized gaze
  \<open>(x, y)\<close> (the landmark arithmetic is the detector's side of the interface).
\<close>

datatype frameInput =
    VideoNotReady
  | DetectorThrows
  | NoFace
  | FaceWithoutIris
  | Gaze real real

text \<open>
  One run of \<open>detect\<close>: the three \<open>set...\<close> calls happen only for a face with iris
  centres; every path ends by requesting the next animation frame.
\<close>

definition detect :: "frameInput \<Rightarrow> tracker \<Rightarrow> tracker" where
  "detect inp t =
     (case inp of
        Gaze normalizedX normalizedY \<Rightarrow>
          t\<lparr> eyePosition := Some (normalizedX, normalizedY),
             gazeSide := classifyGaze normalizedX,
             lastDefinitiveGazeSide :=
               (case classifyGaze normalizedX of
                  None \<Rightarrow> lastDefinitiveGazeSide t
                | Some sd \<Rightarrow> Some sd),
             animationRef := True \<rparr>
      | _ \<Rightarrow> t\<lparr> animationRef := True \<rparr>)"

subsection \<open>Cursor zone classifier\<close>

definition cursorZone :: "viewport \<Rightarrow> vec \<Rightarrow> side option \<times> vertical" where
  "cursorZone vp client =
     (let leftThird = innerWidth vp / 3;
          rightThird = (innerWidth vp * 2) / 3;
          topThird = innerHeight vp / 3;
          bottomThird = (innerHeight vp * 2) / 3;
          newCursorSide = (if fst client < leftThird then Some Left
                           else if fst client > rightThird then Some Right
                           else None);
          newCursorVertical = (if snd client < topThird then Top
                               else if snd client > bottomThird then Bottom
                               else Center)
      in (newCursorSide, newCursorVertical))"

subsection \<open>Repositioning policy\<close>

text \<open>The grace window: within one second after the gaze landed on the widget's side.\<close>

definition isWithinGracePeriod :: "int \<Rightarrow> tracker \<Rightarrow> bool" where
  "isWithinGracePeriod now t =
     (case gazeAtPipStartTimeRef t of None \<Rightarrow> False | Some t0 \<Rightarrow> now - t0 < 1000)"

text \<open>The guard of \<open>handleMouseMove\<close>: no suppression condition holds.\<close>

definition mayTrigger :: "int \<Rightarrow> tracker \<Rightarrow> bool" where
  "mayTrigger now t \<longleftrightarrow>
     \<not> isUserControllingPip t \<and>
     (gazeSide t \<noteq> Some (fst (pipPosition t)) \<or> isWithinGracePeriod now t) \<and>
     \<not> isCursorHoveringPip t \<and>
     targetVerticalState t = None"

definition cursorJustEnteredZone :: "side option \<Rightarrow> tracker \<Rightarrow> bool" where
  "cursorJustEnteredZone newCursorSide t \<longleftrightarrow>
     \<not> (prevCursorSideRef t = Some (fst (pipPosition t))) \<and>
     newCursorSide = Some (fst (pipPosition t))"

text \<open>
  \<open>handleMouseMove\<close>; the listener exists only while tracking is on. Scheduling the
  debounce replaces a pending one.
\<close>

definition handleMouseMove :: "viewport \<Rightarrow> vec \<Rightarrow> int \<Rightarrow> tracker \<Rightarrow> tracker" where
  "handleMouseMove vp client now t =
     (if \<not> isTracking t then t
      else
        (let newCursorSide = fst (cursorZone vp client);
             newCursorVertical = snd (cursorZone vp client)
         in t\<lparr> cursorSide := newCursorSide,
               cursorVertical := newCursorVertical,
               cursorMoveDebounceRef :=
                 (if mayTrigger now t \<and> cursorJustEnteredZone newCursorSide t
                  then Some \<lparr> due = now + 150, pipAtSchedule = pipPosition t,
                               cursorVerticalAtSchedule = newCursorVertical \<rparr>
                  else cursorMoveDebounceRef t),
               prevCursorSideRef := newCursorSide \<rparr>))"

text \<open>The command computed by the debounce callback from its closure.\<close>

definition oppositeOf :: "debounce \<Rightarrow> side \<times> vertical" where
  "oppositeOf d =
     (let oppositeSide = (if fst (pipAtSchedule d) = Left then Right else Left);
          oppositeVertical =
            (if cursorVerticalAtSchedule d = Top then Bottom
             else if cursorVerticalAtSchedule d = Bottom then Top
             else (if snd (pipAtSchedule d) = Top then Bottom
                   else if snd (pipAtSchedule d) = Bottom then Top
                   else Center))
      in (oppositeSide, oppositeVertical))"

definition debounceCallback :: "debounce \<Rightarrow> tracker \<Rightarrow> tracker" where
  "debounceCallback d t =
     t\<lparr> targetVerticalState := Some (snd (oppositeOf d)),
        targetVerticalRef := Some (snd (oppositeOf d)),
        ballSide := fst (oppositeOf d),
        cursorMoveDebounceRef := None,
        commands := commands t @ [oppositeOf d] \<rparr>"

text \<open>
  The cleanup of the policy effect runs when one of its dependencies changes while
  tracking was on, and clears the pending debounce. \<open>pipPosition\<close> is a fresh object at
  every report, so a report always counts as a change.
\<close>

definition policyDeps ::
    "tracker \<Rightarrow> bool \<times> bool \<times> side option \<times> bool \<times> vertical option" where
  "policyDeps t =
     (isTracking t, isUserControllingPip t, gazeSide t, isCursorHoveringPip t,
      targetVerticalState t)"

definition rerender :: "bool \<Rightarrow> tracker \<Rightarrow> tracker \<Rightarrow> tracker" where
  "rerender newPipObject old new =
     (if isTracking old \<and> (policyDeps old \<noteq> policyDeps new \<or> newPipObject)
      then new\<lparr> cursorMoveDebounceRef := None \<rparr>
      else new)"

text \<open>The gaze bookkeeping effect: the time at which the gaze landed on the widget's side.\<close>

definition graceEffect :: "int \<Rightarrow> tracker \<Rightarrow> tracker" where
  "graceEffect now t =
     (if \<not> isTracking t then t
      else if gazeSide t = Some (fst (pipPosition t))
      then (if gazeAtPipStartTimeRef t = None then t\<lparr> gazeAtPipStartTimeRef := Some now \<rparr>
            else t)
      else t\<lparr> gazeAtPipStartTimeRef := None \<rparr>)"

definition handlePipPositionChange :: "side \<times> vertical \<Rightarrow> tracker \<Rightarrow> tracker" where
  "handlePipPositionChange position t =
     (let t1 = t\<lparr> pipPosition := position \<rparr>
      in if targetVerticalRef t \<noteq> None \<and> Some (snd position) = targetVerticalRef t
         then t1\<lparr> targetVerticalState := None, targetVerticalRef := None \<rparr>
         else t1)"

definition handlePipDragStart :: "tracker \<Rightarrow> tracker" where
  "handlePipDragStart t = t\<lparr> isUserControllingPip := True, reEngageTimerRef := None \<rparr>"

definition handlePipDragEnd :: "side \<times> vertical \<Rightarrow> int \<Rightarrow> tracker \<Rightarrow> tracker" where
  "handlePipDragEnd finalPosition now t =
     t\<lparr> ballSide := fst finalPosition,
        targetVerticalState := None,
        targetVerticalRef := None,
        reEngageTimerRef := Some (now + 10000) \<rparr>"

text \<open>Time passing to \<open>now\<close>: a due debounce fires, then a due re-engage timer.\<close>

definition fireDebounce :: "int \<Rightarrow> tracker \<Rightarrow> tracker" where
  "fireDebounce now t =
     (case cursorMoveDebounceRef t of
        None \<Rightarrow> t
      | Some d \<Rightarrow> if due d \<le> now then rerender False t (debounceCallback d t) else t)"

definition fireReEngage :: "int \<Rightarrow> tracker \<Rightarrow> tracker" where
  "fireReEngage now t =
     (case reEngageTimerRef t of
        None \<Rightarrow> t
      | Some d \<Rightarrow>
          if d \<le> now
          then rerender False t (t\<lparr> isUserControllingPip := False, reEngageTimerRef := None \<rparr>)
          else t)"

datatype trackerEvent =
    MouseMove vec int
  | Tick int
  | DetectFrame frameInput int
  | PipMouseEnter
  | PipMouseLeave
  | PipPositionChange "side \<times> vertical" int
  | PipDragStart
  | PipDragEnd "side \<times> vertical" int

fun trackerStep :: "viewport \<Rightarrow> trackerEvent \<Rightarrow> tracker \<Rightarrow> tracker" where
  "trackerStep vp (MouseMove client now) t = handleMouseMove vp client now t"
| "trackerStep vp (Tick now) t = fireReEngage now (fireDebounce now t)"
| "trackerStep vp (DetectFrame inp now) t =
     (if animationRef t then graceEffect now (rerender False t (detect inp t)) else t)"
| "trackerStep vp PipMouseEnter t = rerender False t (t\<lparr> isCursorHoveringPip := True \<rparr>)"
| "trackerStep vp PipMouseLeave t = rerender False t (t\<lparr> isCursorHoveringPip := False \<rparr>)"
| "trackerStep vp (PipPositionChange position now) t =
     graceEffect now (rerender True t (handlePipPositionChange position t))"
| "trackerStep vp PipDragStart t = rerender False t (handlePipDragStart t)"
| "trackerStep vp (PipDragEnd finalPosition now) t =
     rerender False t (handlePipDragEnd finalPosition now t)"

fun trackerRun :: "viewport \<Rightarrow> trackerEvent list \<Rightarrow> tracker \<Rightarrow> tracker" where
  "trackerRun vp [] t = t"
| "trackerRun vp (e # es) t = trackerRun vp es (trackerStep vp e t)"

text \<open>
  The tracker of the scenarios: tracking on, the widget reported left and centred, nothing
  pending, the cursor last seen in the middle third.
\<close>

definition tracker0 :: tracker where
  "tracker0 =
     \<lparr> isTracking = True, ballSide = Left, targetVerticalState = None,
       cursorSide = None, cursorVertical = Center, gazeSide = None,
       lastDefinitiveGazeSide = None, eyePosition = None, isCursorHoveringPip = False,
       pipPosition = (Left, Center), isUserControllingPip = False,
       targetVerticalRef = None, reEngageTimerRef = None, cursorMoveDebounceRef = None,
       prevCursorSideRef = None, gazeAtPipStartTimeRef = None, animationRef = True,
       commands = [] \<rparr>"

section \<open>Basic facts\<close>

lemmas pip_eval =
  initialPip_def handleDragStart_def handleDragMove_def dragRelease_def handleDragEnd_def
  clampPosition_def getViewportBounds_def pipBounds_def Let_def startPhysics_def zoneOf_def
  pipCenterX_def sideChangeEffect_def frame_def updatePhysics_def springStep_def
  bounceAxis_def clampVelocity_def physics_constants convertX_def newPosX_def
  absoluteScreenX_def targetYFor_def inBounds_def fits_def vp0_def

lemma sqrt_692224: "sqrt 692224 = 832"
  by (rule real_sqrt_unique) simp_all

lemma clampPosition_inBounds:
  "fits d vp \<Longrightarrow> inBounds (getViewportBounds sd d vp) (clampPosition sd d vp pos)"
  by (auto simp: fits_def inBounds_def clampPosition_def getViewportBounds_def
      VIEWPORT_PADDING_def Let_def)

lemma bounceAxis_range:
  "lo \<le> hi \<Longrightarrow> lo \<le> fst (bounceAxis lo hi p v) \<and> fst (bounceAxis lo hi p v) \<le> hi"
  by (simp add: bounceAxis_def)

lemma bounds_nonempty:
  "fits d vp \<Longrightarrow>
     minX (getViewportBounds sd d vp) \<le> maxX (getViewportBounds sd d vp) \<and>
     minY (getViewportBounds sd d vp) \<le> maxY (getViewportBounds sd d vp)"
  by (auto simp: fits_def getViewportBounds_def VIEWPORT_PADDING_def Let_def)

lemma updatePhysics_frame [simp]:
  "side (updatePhysics vp s) = side s"
  "currentDimensions (updatePhysics vp s) = currentDimensions s"
  by (simp_all add: updatePhysics_def Let_def split: prod.splits)

lemma updatePhysics_position:
  "currentPosition (updatePhysics vp s) =
    (case springStep (currentPosition s) (velocity s) (targetPosition s) of
       (pos0, vel0, tgt) \<Rightarrow>
         (fst (bounceAxis (minX (pipBounds vp s)) (maxX (pipBounds vp s))
                 (fst pos0 + fst vel0) (clampVelocity (fst vel0 * FRICTION))),
          fst (bounceAxis (minY (pipBounds vp s)) (maxY (pipBounds vp s))
                 (snd pos0 + snd vel0) (clampVelocity (snd vel0 * FRICTION)))))"
  by (simp add: updatePhysics_def Let_def split: prod.splits)

lemma updatePhysics_velocity:
  "velocity (updatePhysics vp s) =
    (case springStep (currentPosition s) (velocity s) (targetPosition s) of
       (pos0, vel0, tgt) \<Rightarrow>
         (let bx = bounceAxis (minX (pipBounds vp s)) (maxX (pipBounds vp s))
                     (fst pos0 + fst vel0) (clampVelocity (fst vel0 * FRICTION));
              by = bounceAxis (minY (pipBounds vp s)) (maxY (pipBounds vp s))
                     (snd pos0 + snd vel0) (clampVelocity (snd vel0 * FRICTION))
          in if \<bar>snd bx\<bar> < 0.05 \<and> \<bar>snd by\<bar> < 0.05 \<and> tgt = None
             then (0, 0) else (snd bx, snd by)))"
  by (simp add: updatePhysics_def Let_def split: prod.splits)

lemma updatePhysics_inBounds:
  assumes "fits (currentDimensions s) vp"
  shows "inBounds (pipBounds vp (updatePhysics vp s)) (currentPosition (updatePhysics vp s))"
proof -
  have b: "pipBounds vp (updatePhysics vp s) = pipBounds vp s"
    by (simp add: pipBounds_def)
  from bounds_nonempty[OF assms, of "side s"]
  have ne: "minX (pipBounds vp s) \<le> maxX (pipBounds vp s)"
    "minY (pipBounds vp s) \<le> maxY (pipBounds vp s)"
    by (simp_all add: pipBounds_def)
  show ?thesis
    unfolding b inBounds_def updatePhysics_position
    using bounceAxis_range[OF ne(1)] bounceAxis_range[OF ne(2)]
    by (simp split: prod.splits)
qed

lemma handleDragMove_inBounds:
  "fits (currentDimensions s) vp \<Longrightarrow> isDragging s \<Longrightarrow>
   inBounds (pipBounds vp (handleDragMove vp client now s))
     (currentPosition (handleDragMove vp client now s))"
  using clampPosition_inBounds[of "currentDimensions s" vp "side s"]
  by (simp add: handleDragMove_def pipBounds_def Let_def)

lemma handleDragEnd_inBounds:
  "fits (currentDimensions s) vp \<Longrightarrow>
   inBounds (pipBounds vp (handleDragEnd vp s)) (currentPosition (handleDragEnd vp s))"
  using clampPosition_inBounds[of "currentDimensions s" vp "side s" "currentPosition s"]
  by (auto simp: handleDragEnd_def pipBounds_def Let_def startPhysics_def inBounds_def)

lemma handleDragEnd_frame [simp]:
  "side (handleDragEnd vp s) = side s"
  "currentDimensions (handleDragEnd vp s) = currentDimensions s"
  by (simp_all add: handleDragEnd_def Let_def startPhysics_def)

lemma sideChangeEffect_dims [simp]:
  "currentDimensions (sideChangeEffect vp newSide tv s) = currentDimensions s"
  by (simp add: sideChangeEffect_def Let_def startPhysics_def)

lemma sideChangeEffect_inBounds:
  "inBounds (pipBounds vp s) (currentPosition s) \<Longrightarrow>
   inBounds (pipBounds vp (sideChangeEffect vp newSide tv s))
     (currentPosition (sideChangeEffect vp newSide tv s))"
  by (cases "side s"; cases newSide)
     (auto simp: sideChangeEffect_def Let_def startPhysics_def pipBounds_def inBounds_def
        getViewportBounds_def convertX_def newPosX_def absoluteScreenX_def)

lemma step_dims [simp]: "currentDimensions (step vp e s) = currentDimensions s"
  by (cases e)
     (simp_all add: handleDragStart_def handleDragMove_def dragRelease_def frame_def Let_def)

lemma step_inBounds:
  assumes "fits (currentDimensions s) vp" and "inBounds (pipBounds vp s) (currentPosition s)"
  shows "inBounds (pipBounds vp (step vp e s)) (currentPosition (step vp e s))"
proof (cases e)
  case (DragStart client now)
  with assms(2) show ?thesis by (simp add: handleDragStart_def pipBounds_def)
next
  case (DragMove client now)
  with assms handleDragMove_inBounds[of s vp client now] show ?thesis
    by (cases "isDragging s") (simp_all add: handleDragMove_def)
next
  case DragEnd
  with assms handleDragEnd_inBounds[of s vp] show ?thesis
    by (simp add: dragRelease_def Let_def sideChangeEffect_inBounds)
next
  case Frame
  with assms updatePhysics_inBounds[of s vp] show ?thesis
    by (simp add: frame_def)
next
  case (SideChange newSide tv)
  with assms(2) show ?thesis by (simp add: sideChangeEffect_inBounds)
qed

lemma run_dims [simp]: "currentDimensions (run vp evs s) = currentDimensions s"
  by (induction evs arbitrary: s) simp_all

lemma run_inBounds:
  "fits (currentDimensions s) vp \<Longrightarrow> inBounds (pipBounds vp s) (currentPosition s) \<Longrightarrow>
   inBounds (pipBounds vp (run vp evs s)) (currentPosition (run vp evs s))"
  by (induction evs arbitrary: s) (simp_all add: step_inBounds)

lemma clampVelocity_abs: "\<bar>clampVelocity v\<bar> \<le> MAX_VELOCITY"
  by (simp add: clampVelocity_def MAX_VELOCITY_def abs_le_iff)

lemma clampVelocity_le: "\<bar>clampVelocity v\<bar> \<le> \<bar>v\<bar>"
  by (simp add: clampVelocity_def MAX_VELOCITY_def abs_le_iff) linarith

lemma bounceAxis_abs: "\<bar>snd (bounceAxis lo hi p v)\<bar> \<le> \<bar>v\<bar>"
  by (simp add: bounceAxis_def BOUNCE_DAMPING_def abs_mult)

lemma friction_bound:
  "\<bar>snd (bounceAxis lo hi p (clampVelocity (v * FRICTION)))\<bar> \<le> FRICTION * \<bar>v\<bar>"
  using bounceAxis_abs[of lo hi p "clampVelocity (v * FRICTION)"]
    clampVelocity_le[of "v * FRICTION"]
  by (simp add: abs_mult FRICTION_def)

lemma cap_bound: "\<bar>snd (bounceAxis lo hi p (clampVelocity v))\<bar> \<le> MAX_VELOCITY"
  using bounceAxis_abs[of lo hi p "clampVelocity v"] clampVelocity_abs[of v] by linarith

lemma updatePhysics_capped:
  "\<bar>fst (velocity (updatePhysics vp s))\<bar> \<le> MAX_VELOCITY \<and>
   \<bar>snd (velocity (updatePhysics vp s))\<bar> \<le> MAX_VELOCITY"
  using cap_bound
  by (simp add: updatePhysics_velocity Let_def MAX_VELOCITY_def split: prod.splits)

lemma springStep_snap:
  "snapCondition s t \<Longrightarrow>
   springStep (currentPosition s) (velocity s) (Some t) = (t, (0, 0), None)"
  by (simp add: springStep_def snapCondition_def Let_def)

lemma clampVelocity_0 [simp]: "clampVelocity 0 = 0"
  by (simp add: clampVelocity_def MAX_VELOCITY_def)

lemma bounceAxis_0 [simp]: "snd (bounceAxis lo hi p 0) = 0"
  by (simp add: bounceAxis_def)

lemma updatePhysics_target:
  "targetPosition (updatePhysics vp s) =
     snd (snd (springStep (currentPosition s) (velocity s) (targetPosition s)))"
  by (simp add: updatePhysics_def Let_def split: prod.splits)

lemma updatePhysics_animationFrame:
  "animationFrame (updatePhysics vp s) \<longleftrightarrow>
     \<bar>fst (velocity (updatePhysics vp s))\<bar> > 0.005 \<or>
     \<bar>snd (velocity (updatePhysics vp s))\<bar> > 0.005 \<or>
     targetPosition (updatePhysics vp s) \<noteq> None"
  by (simp add: updatePhysics_def Let_def split: prod.splits)

lemma updatePhysics_snap:
  assumes "targetPosition s = Some t" "snapCondition s t"
  shows "velocity (updatePhysics vp s) = (0, 0)"
    and "targetPosition (updatePhysics vp s) = None"
    and "animationFrame (updatePhysics vp s) = False"
proof -
  show v: "velocity (updatePhysics vp s) = (0, 0)"
    by (simp add: updatePhysics_velocity assms(1) springStep_snap[OF assms(2)])
  show t: "targetPosition (updatePhysics vp s) = None"
    by (simp add: updatePhysics_target assms(1) springStep_snap[OF assms(2)])
  show "animationFrame (updatePhysics vp s) = False"
    by (simp add: updatePhysics_animationFrame v t)
qed

lemma zoneOf_side:
  "fst (zoneOf sd d vp pos) =
     (if pipCenterX sd d vp pos < innerWidth vp / 3 then Left
      else if pipCenterX sd d vp pos > innerWidth vp * 2 / 3 then Right else sd)"
  by (simp add: zoneOf_def Let_def)

lemma updateDOM_report_Some:
  "updateDOM_report mounted cb sd d vp pos = Some r \<Longrightarrow> r = zoneOf sd d vp pos"
  by (cases mounted; cases cb) (simp_all add: updateDOM_report_def)

lemma handleDragEnd_report_Some:
  "handleDragEnd_report cb vp s = Some r \<Longrightarrow>
   r = zoneOf (side s) (currentDimensions s) vp
         (clampPosition (side s) (currentDimensions s) vp (currentPosition s))"
  by (cases cb) (simp_all add: handleDragEnd_report_def)

subsection \<open>Settling and spring convergence\<close>

lemma frames_Suc_right: "frames (Suc n) vp s = frame vp (frames n vp s)"
  by (induction n arbitrary: s) simp_all

lemma frames_add: "frames (m + n) vp s = frames n vp (frames m vp s)"
  by (induction m arbitrary: s) simp_all

lemma frames_settled: "settled s \<Longrightarrow> frames n vp s = s"
  by (induction n) (simp_all add: settled_def frame_def)

lemma updatePhysics_no_target:
  assumes "targetPosition s = None"
  shows "targetPosition (updatePhysics vp s) = None"
    and "\<bar>fst (velocity (updatePhysics vp s))\<bar> \<le> FRICTION * \<bar>fst (velocity s)\<bar>"
    and "\<bar>snd (velocity (updatePhysics vp s))\<bar> \<le> FRICTION * \<bar>snd (velocity s)\<bar>"
    and "\<bar>fst (velocity (updatePhysics vp s))\<bar> \<le> MAX_VELOCITY"
    and "\<bar>snd (velocity (updatePhysics vp s))\<bar> \<le> MAX_VELOCITY"
    and "animationFrame (updatePhysics vp s) \<Longrightarrow>
           0.05 \<le> \<bar>fst (velocity (updatePhysics vp s))\<bar> \<or>
           0.05 \<le> \<bar>snd (velocity (updatePhysics vp s))\<bar>"
    and "\<not> animationFrame (updatePhysics vp s) \<Longrightarrow> settled (updatePhysics vp s)"
proof -
  show t: "targetPosition (updatePhysics vp s) = None"
    using assms by (simp add: updatePhysics_target springStep_def)
  show "\<bar>fst (velocity (updatePhysics vp s))\<bar> \<le> FRICTION * \<bar>fst (velocity s)\<bar>"
    using assms friction_bound
    by (simp add: updatePhysics_velocity springStep_def Let_def FRICTION_def)
  show "\<bar>snd (velocity (updatePhysics vp s))\<bar> \<le> FRICTION * \<bar>snd (velocity s)\<bar>"
    using assms friction_bound
    by (simp add: updatePhysics_velocity springStep_def Let_def FRICTION_def)
  show "\<bar>fst (velocity (updatePhysics vp s))\<bar> \<le> MAX_VELOCITY"
    using updatePhysics_capped by simp
  show "\<bar>snd (velocity (updatePhysics vp s))\<bar> \<le> MAX_VELOCITY"
    using updatePhysics_capped by simp
  show "animationFrame (updatePhysics vp s) \<Longrightarrow>
           0.05 \<le> \<bar>fst (velocity (updatePhysics vp s))\<bar> \<or>
           0.05 \<le> \<bar>snd (velocity (updatePhysics vp s))\<bar>"
    using assms
    by (auto simp: updatePhysics_animationFrame t updatePhysics_velocity springStep_def Let_def
        split: if_splits)
  show "\<not> animationFrame (updatePhysics vp s) \<Longrightarrow> settled (updatePhysics vp s)"
    using assms
    by (auto simp: settled_def updatePhysics_animationFrame t updatePhysics_velocity
        springStep_def Let_def split: if_splits)
qed

lemma frames_decay:
  assumes "targetPosition s = None" and "animationFrame s"
  shows "settled (frames (Suc n) vp s) \<or>
         moving (MAX_VELOCITY * FRICTION ^ n) (frames (Suc n) vp s)"
proof (induction n)
  case 0
  have "frames (Suc 0) vp s = updatePhysics vp s"
    using assms by (simp add: frame_def)
  with updatePhysics_no_target[OF assms(1), of vp] show ?case
    by (cases "animationFrame (updatePhysics vp s)") (simp_all add: moving_def)
next
  case (Suc n)
  let ?s = "frames (Suc n) vp s"
  have eq: "frames (Suc (Suc n)) vp s = frame vp ?s"
    by (rule frames_Suc_right)
  from Suc.IH show ?case
  proof
    assume "settled ?s"
    then have "frame vp ?s = ?s" by (simp add: settled_def frame_def)
    with \<open>settled ?s\<close> eq show ?thesis by simp
  next
    assume a: "moving (MAX_VELOCITY * FRICTION ^ n) ?s"
    then have f: "frame vp ?s = updatePhysics vp ?s" by (simp add: frame_def moving_def)
    from a have t: "targetPosition ?s = None" by (simp add: moving_def)
    note u = updatePhysics_no_target[OF t, of vp]
    have "FRICTION * \<bar>fst (velocity ?s)\<bar> \<le> FRICTION * (MAX_VELOCITY * FRICTION ^ n)"
      using a by (simp add: FRICTION_def moving_def)
    with u(2) have x: "\<bar>fst (velocity (updatePhysics vp ?s))\<bar> \<le> MAX_VELOCITY * FRICTION ^ Suc n"
      by (simp add: mult.assoc mult.left_commute)
    have "FRICTION * \<bar>snd (velocity ?s)\<bar> \<le> FRICTION * (MAX_VELOCITY * FRICTION ^ n)"
      using a by (simp add: FRICTION_def moving_def)
    with u(3) have y: "\<bar>snd (velocity (updatePhysics vp ?s))\<bar> \<le> MAX_VELOCITY * FRICTION ^ Suc n"
      by (simp add: mult.assoc mult.left_commute)
    show ?thesis
      unfolding eq f moving_def using x y u(1) u(6) u(7) by blast
  qed
qed

lemma decay_45: "MAX_VELOCITY * FRICTION ^ 45 < 0.05"
  by (simp add: MAX_VELOCITY_def FRICTION_def power_divide)

lemma settles_within_46:
  assumes "targetPosition s = None" and "animationFrame s"
  shows "settled (frames 46 vp s)"
proof -
  have n: "(46::nat) = Suc 45" by simp
  from frames_decay[OF assms, of 45 vp] decay_45 show ?thesis
    unfolding n moving_def by linarith
qed

lemma settled_stays:
  assumes "settled (frames n vp s)" and "n \<le> m"
  shows "frames m vp s = frames n vp s"
proof -
  from assms(2) obtain k where "m = n + k" by (auto simp: le_iff_add)
  then show ?thesis by (simp add: frames_add frames_settled[OF assms(1)])
qed

lemma bounds0:
  "side s = Left \<Longrightarrow> currentDimensions s = \<lparr> width = 320, height = 280 \<rparr> \<Longrightarrow>
   pipBounds vp0 s = \<lparr> minX = 0, maxX = 832, minY = - 236, maxY = 236 \<rparr>"
  by (simp add: vp0_def pipBounds_def getViewportBounds_def VIEWPORT_PADDING_def Let_def)

lemma glide_step:
  assumes "targetPosition s = None" "side s = Left"
    "currentDimensions s = \<lparr> width = 320, height = 280 \<rparr>"
    "velocity s = (v, 0)" "0 \<le> v" "v \<le> 15"
    "currentPosition s = (p, 0)" "0 \<le> p" "p + v \<le> 832"
  shows "currentPosition (updatePhysics vp0 s) = (p + v, 0)"
    and "velocity (updatePhysics vp0 s) = (if v * FRICTION < 0.05 then (0, 0) else (v * FRICTION, 0))"
    and "animationFrame (updatePhysics vp0 s) = (\<not> v * FRICTION < 0.05)"
    and "targetPosition (updatePhysics vp0 s) = None"
proof -
  have c: "clampVelocity (v * FRICTION) = v * FRICTION"
    using assms(5,6) by (simp add: clampVelocity_def MAX_VELOCITY_def FRICTION_def)
  have sp: "springStep (currentPosition s) (velocity s) (targetPosition s) = ((p, 0), (v, 0), None)"
    using assms by (simp add: springStep_def)
  have b1: "bounceAxis 0 832 (p + v) (v * FRICTION) = (p + v, v * FRICTION)"
    using assms by (simp add: bounceAxis_def)
  have b2: "bounceAxis (- 236) 236 0 0 = (0, 0)"
    by (simp add: bounceAxis_def)
  show "currentPosition (updatePhysics vp0 s) = (p + v, 0)"
    by (simp add: updatePhysics_position sp bounds0[OF assms(2,3)] c b1 b2)
  have nn: "0 \<le> v * FRICTION"
    using assms(5) by (simp add: FRICTION_def)
  show v: "velocity (updatePhysics vp0 s) = (if v * FRICTION < 0.05 then (0, 0) else (v * FRICTION, 0))"
    using nn by (simp add: updatePhysics_velocity sp bounds0[OF assms(2,3)] c b1 b2 Let_def)
  show t: "targetPosition (updatePhysics vp0 s) = None"
    by (simp add: updatePhysics_target sp)
  show "animationFrame (updatePhysics vp0 s) = (\<not> v * FRICTION < 0.05)"
    using nn by (simp add: updatePhysics_animationFrame v t)
qed

lemma threshold_39: "0.05 \<le> 8 * FRICTION ^ 39" and threshold_40: "8 * FRICTION ^ 40 < 0.05"
  by (simp_all add: FRICTION_def power_divide)

lemma gliding_0: "gliding 0 fling"
  by (simp add: gliding_def fling_def handleDragEnd_def initialPip_def clampPosition_def
      getViewportBounds_def vp0_def startPhysics_def VIEWPORT_PADDING_def Let_def)

lemma gliding_facts:
  assumes "gliding k s"
  shows "currentPosition (updatePhysics vp0 s) =
           (8 * (1 - FRICTION ^ Suc k) / (1 - FRICTION), 0)"
    and "velocity (updatePhysics vp0 s) =
           (if 8 * FRICTION ^ Suc k < 0.05 then (0, 0) else (8 * FRICTION ^ Suc k, 0))"
    and "animationFrame (updatePhysics vp0 s) = (\<not> 8 * FRICTION ^ Suc k < 0.05)"
    and "targetPosition (updatePhysics vp0 s) = None"
proof -
  let ?v = "8 * FRICTION ^ k" and ?p = "8 * (1 - FRICTION ^ k) / (1 - FRICTION)"
  have r: "0 \<le> FRICTION ^ k" "FRICTION ^ k \<le> 1"
    by (simp_all add: FRICTION_def power_le_one)
  have v0: "0 \<le> ?v" and v15: "?v \<le> 15" using r by simp_all
  have p0: "0 \<le> ?p" using r by (simp add: FRICTION_def)
  have sum: "?p + ?v = 8 * (1 - FRICTION ^ Suc k) / (1 - FRICTION)"
    by (simp add: FRICTION_def field_simps)
  have "8 * (1 - FRICTION ^ Suc k) / (1 - FRICTION) \<le> 8 / (1 - FRICTION)"
    by (simp add: FRICTION_def divide_right_mono)
  also have "\<dots> \<le> 832" by (simp add: FRICTION_def)
  finally have le: "?p + ?v \<le> 832" by (simp only: sum)
  from assms have a: "targetPosition s = None" "side s = Left"
    "currentDimensions s = \<lparr> width = 320, height = 280 \<rparr>"
    "velocity s = (?v, 0)" "currentPosition s = (?p, 0)"
    by (simp_all add: gliding_def)
  note g = glide_step[OF a(1) a(2) a(3) a(4) v0 v15 a(5) p0 le]
  have m: "?v * FRICTION = 8 * FRICTION ^ Suc k" by simp
  show "currentPosition (updatePhysics vp0 s) =
           (8 * (1 - FRICTION ^ Suc k) / (1 - FRICTION), 0)"
    using g(1) by (simp only: sum)
  show "velocity (updatePhysics vp0 s) =
           (if 8 * FRICTION ^ Suc k < 0.05 then (0, 0) else (8 * FRICTION ^ Suc k, 0))"
    using g(2) by (simp only: m)
  show "animationFrame (updatePhysics vp0 s) = (\<not> 8 * FRICTION ^ Suc k < 0.05)"
    using g(3) by (simp only: m)
  show "targetPosition (updatePhysics vp0 s) = None" by (rule g(4))
qed

lemma gliding_step:
  assumes "gliding k s" and "k < 39"
  shows "gliding (Suc k) (frame vp0 s)"
proof -
  have "FRICTION ^ 39 \<le> FRICTION ^ Suc k"
    using assms(2) by (intro power_decreasing) (simp_all add: FRICTION_def)
  with threshold_39 have ge: "\<not> 8 * FRICTION ^ Suc k < 0.05" by simp
  from assms(1) have f: "frame vp0 s = updatePhysics vp0 s"
    by (simp add: frame_def gliding_def)
  from assms(1) have "side s = Left" "currentDimensions s = \<lparr> width = 320, height = 280 \<rparr>"
    by (simp_all add: gliding_def)
  with gliding_facts[OF assms(1)] ge show ?thesis
    unfolding f gliding_def by simp
qed

lemma gliding_frames: "k \<le> 39 \<Longrightarrow> gliding k (frames k vp0 fling)"
proof (induction k)
  case 0
  show ?case by (simp add: gliding_0)
next
  case (Suc k)
  then have "gliding k (frames k vp0 fling)" and "k < 39" by simp_all
  then show ?case
    unfolding frames_Suc_right by (rule gliding_step)
qed

lemma fling_39:
  "animationFrame (frames 39 vp0 fling)" "velocity (frames 39 vp0 fling) = (8 * FRICTION ^ 39, 0)"
  using gliding_frames[of 39] by (simp_all add: gliding_def)

lemma fling_40: "settled (frames 40 vp0 fling)"
proof -
  have g: "gliding 39 (frames 39 vp0 fling)" by (rule gliding_frames) simp
  have e: "frames 40 vp0 fling = updatePhysics vp0 (frames 39 vp0 fling)"
    using frames_Suc_right[of 39 vp0 fling] g by (simp add: frame_def gliding_def)
  have lt: "8 * FRICTION ^ Suc 39 < 0.05" using threshold_40 by simp
  from gliding_facts[OF g] lt show ?thesis
    unfolding e settled_def by simp
qed

lemma quad_nonneg:
  fixes a b c x y :: real
  assumes "0 < a" "b * b \<le> 4 * a * c"
  shows "0 \<le> a * (x * x) + b * (x * y) + c * (y * y)"
proof -
  have "4 * a * (a * (x * x) + b * (x * y) + c * (y * y)) =
        (2 * a * x + b * y) * (2 * a * x + b * y) + (4 * a * c - b * b) * (y * y)"
    by (simp add: algebra_simps)
  moreover have "0 \<le> (2 * a * x + b * y) * (2 * a * x + b * y)" by simp
  moreover have "0 \<le> (4 * a * c - b * b) * (y * y)" using assms(2) by simp
  ultimately have "0 \<le> 4 * a * (a * (x * x) + b * (x * y) + c * (y * y))" by simp
  with assms(1) show ?thesis by (simp add: zero_le_mult_iff)
qed

lemma energy_free:
  "springEnergy (d - springVel d v) (springVel d v * FRICTION) \<le> 0.9 * springEnergy d v"
proof -
  have "0.9 * springEnergy d v - springEnergy (d - springVel d v) (springVel d v * FRICTION) =
        (992751/7812500) * (d * d) + (- 302249/312500) * (d * v) + (209001/50000) * (v * v)"
    by (simp add: springEnergy_def springVel_def physics_constants algebra_simps)
  moreover have "0 \<le> (992751/7812500) * (d * d) + (- 302249/312500) * (d * v) + (209001/50000) * (v * v)"
    by (rule quad_nonneg) simp_all
  ultimately show ?thesis by linarith
qed

lemma energy_stopped:
  "springEnergy (d - springVel d v) 0 \<le> 0.9 * springEnergy d v"
proof -
  have "0.9 * springEnergy d v - springEnergy (d - springVel d v) 0 =
        (1961/62500) * (d * d) + (- 2789/2500) * (d * v) + (6911/400) * (v * v)"
    by (simp add: springEnergy_def springVel_def physics_constants algebra_simps)
  moreover have "0 \<le> (1961/62500) * (d * d) + (- 2789/2500) * (d * v) + (6911/400) * (v * v)"
    by (rule quad_nonneg) simp_all
  ultimately show ?thesis by linarith
qed

lemma energy_scaled:
  assumes "0 \<le> \<theta>" "\<theta> \<le> 1" "springEnergy e 0 \<le> R" "springEnergy e w \<le> R"
  shows "springEnergy e (\<theta> * w) \<le> R"
proof -
  have "(1 - \<theta>) * springEnergy e 0 + \<theta> * springEnergy e w - springEnergy e (\<theta> * w) =
        20 * (w * w) * (\<theta> * (1 - \<theta>))"
    by (simp add: springEnergy_def algebra_simps)
  moreover have "0 \<le> 20 * (w * w) * (\<theta> * (1 - \<theta>))"
    using assms(1,2) by simp
  ultimately have "springEnergy e (\<theta> * w) \<le> (1 - \<theta>) * springEnergy e 0 + \<theta> * springEnergy e w"
    by linarith
  also have "\<dots> \<le> (1 - \<theta>) * R + \<theta> * R"
    using assms by (intro add_mono mult_left_mono) simp_all
  also have "\<dots> = R" by (simp add: algebra_simps)
  finally show ?thesis .
qed

lemma clampVelocity_scale: "\<exists>\<theta>. 0 \<le> \<theta> \<and> \<theta> \<le> 1 \<and> clampVelocity w = \<theta> * w"
proof -
  consider "\<bar>w\<bar> \<le> 15" | "15 < w" | "w < - 15" by linarith
  then show ?thesis
  proof cases
    case 1
    then have "clampVelocity w = 1 * w"
      by (simp add: clampVelocity_def MAX_VELOCITY_def abs_le_iff)
    then show ?thesis by (intro exI[of _ 1]) simp
  next
    case 2
    then have "clampVelocity w = (15 / w) * w"
      by (simp add: clampVelocity_def MAX_VELOCITY_def)
    with 2 show ?thesis by (intro exI[of _ "15 / w"]) simp
  next
    case 3
    then have "clampVelocity w = (- 15 / w) * w"
      by (simp add: clampVelocity_def MAX_VELOCITY_def)
    with 3 show ?thesis by (intro exI[of _ "- 15 / w"]) (simp add: field_simps)
  qed
qed

lemma energy_decay:
  "springEnergy (d - springVel d v) (clampVelocity (springVel d v * FRICTION))
     \<le> 0.9 * springEnergy d v"
proof -
  obtain \<theta> where "0 \<le> \<theta>" "\<theta> \<le> 1"
    and "clampVelocity (springVel d v * FRICTION) = \<theta> * (springVel d v * FRICTION)"
    using clampVelocity_scale by blast
  with energy_scaled[OF _ _ energy_stopped energy_free, of \<theta> d v] show ?thesis by simp
qed

lemma energy_ge_d: "(71 / 80) * (d * d) \<le> springEnergy d v"
proof -
  have "springEnergy d v - (71 / 80) * (d * d) = 20 * ((v - 3 * d / 40) * (v - 3 * d / 40))"
    by (simp add: springEnergy_def algebra_simps)
  moreover have "0 \<le> 20 * ((v - 3 * d / 40) * (v - 3 * d / 40))" by simp
  ultimately show ?thesis by linarith
qed

lemma energy_ge_v: "(71 / 4) * (v * v) \<le> springEnergy d v"
proof -
  have "springEnergy d v - (71 / 4) * (v * v) = (d - 3 * v / 2) * (d - 3 * v / 2)"
    by (simp add: springEnergy_def algebra_simps)
  moreover have "0 \<le> (d - 3 * v / 2) * (d - 3 * v / 2)" by simp
  ultimately show ?thesis by linarith
qed

lemma abs_less_of_square:
  fixes x a :: real
  assumes "x * x < a * a" "0 \<le> a"
  shows "\<bar>x\<bar> < a"
proof (rule ccontr)
  assume "\<not> \<bar>x\<bar> < a"
  then have "a \<le> \<bar>x\<bar>" by simp
  with assms(2) have "a * a \<le> \<bar>x\<bar> * \<bar>x\<bar>" by (intro mult_mono) simp_all
  then show False using assms(1) by simp
qed

lemma small_energy:
  assumes "springEnergy d v < 1 / 2"
  shows "\<bar>d\<bar> < 1" and "\<bar>springVel d v\<bar> < 0.3"
proof -
  from energy_ge_d[of d v] assms have "d * d < (4/5) * (4/5)" by simp
  then have d: "\<bar>d\<bar> < 4/5" by (rule abs_less_of_square) simp
  then show "\<bar>d\<bar> < 1" by simp
  from energy_ge_v[of v d] assms have "v * v < (1/5) * (1/5)" by simp
  then have v: "\<bar>v\<bar> < 1/5" by (rule abs_less_of_square) simp
  have "springVel d v = (17 / 20) * v + (17 / 250) * d"
    by (simp add: springVel_def physics_constants algebra_simps)
  then have "\<bar>springVel d v\<bar> \<le> \<bar>(17 / 20) * v\<bar> + \<bar>(17 / 250) * d\<bar>"
    by (simp only: abs_triangle_ineq)
  then have "\<bar>springVel d v\<bar> \<le> (17 / 20) * \<bar>v\<bar> + (17 / 250) * \<bar>d\<bar>"
    by (simp add: abs_mult)
  with d v have "\<bar>springVel d v\<bar> < 3 / 10" by linarith
  then show "\<bar>springVel d v\<bar> < 0.3" by simp
qed

lemma bounceAxis_inside: "lo \<le> p \<Longrightarrow> p \<le> hi \<Longrightarrow> bounceAxis lo hi p v = (p, v)"
  by (simp add: bounceAxis_def)

lemma step_snap:
  assumes "targetPosition s = Some t" "snapCondition s t" "inBounds (pipBounds vp s) t"
  shows "terminal t (updatePhysics vp s)"
proof -
  from assms(3)
  have b: "minX (pipBounds vp s) \<le> fst t" "fst t \<le> maxX (pipBounds vp s)"
    "minY (pipBounds vp s) \<le> snd t" "snd t \<le> maxY (pipBounds vp s)"
    by (simp_all add: inBounds_def)
  have "currentPosition (updatePhysics vp s) = t"
    by (simp add: updatePhysics_position assms(1) springStep_snap[OF assms(2)]
        bounceAxis_inside b)
  with updatePhysics_snap[OF assms(1,2), of vp] show ?thesis
    by (simp add: terminal_def settled_def)
qed

lemma springStep_spring:
  assumes "\<not> snapCondition s t"
  shows "springStep (currentPosition s) (velocity s) (Some t) =
           (currentPosition s,
            (springVel (fst t - fst (currentPosition s)) (fst (velocity s)),
             springVel (snd t - snd (currentPosition s)) (snd (velocity s))),
            Some t)"
  using assms by (simp add: springStep_def snapCondition_def springVel_def Let_def)

text \<open>
  A bounce does not raise the energy: the clamped position is nearer to the target than the
  integrated one, and the reversed velocity points towards the target.
\<close>

lemma bounce_low:
  assumes "0 \<le> dc" "dc \<le> e" "w \<le> 0"
  shows "springEnergy dc (w * (- BOUNCE_DAMPING)) \<le> springEnergy e w"
proof -
  have "springEnergy e w - springEnergy dc (w * (- BOUNCE_DAMPING)) =
        (e - dc) * (e + dc) + 3 * (e * (- w)) + (9 / 10) * (dc * (- w)) + (91 / 5) * (w * w)"
    by (simp add: springEnergy_def BOUNCE_DAMPING_def algebra_simps)
  moreover have "0 \<le> (e - dc) * (e + dc)" using assms(1,2) by simp
  moreover have "0 \<le> e * (- w)" using assms by (intro mult_nonneg_nonneg) simp_all
  moreover have "0 \<le> dc * (- w)" using assms by (intro mult_nonneg_nonneg) simp_all
  moreover have "0 \<le> w * w" by simp
  ultimately show ?thesis by linarith
qed

lemma bounce_high:
  assumes "dc \<le> 0" "e \<le> dc" "0 \<le> w"
  shows "springEnergy dc (w * (- BOUNCE_DAMPING)) \<le> springEnergy e w"
proof -
  have "springEnergy e w - springEnergy dc (w * (- BOUNCE_DAMPING)) =
        (dc - e) * (- e - dc) + 3 * ((- e) * w) + (9 / 10) * ((- dc) * w) + (91 / 5) * (w * w)"
    by (simp add: springEnergy_def BOUNCE_DAMPING_def algebra_simps)
  moreover have "0 \<le> (dc - e) * (- e - dc)" using assms(1,2) by simp
  moreover have "0 \<le> (- e) * w" using assms by (intro mult_nonneg_nonneg) simp_all
  moreover have "0 \<le> (- dc) * w" using assms by (intro mult_nonneg_nonneg) simp_all
  moreover have "0 \<le> w * w" by simp
  ultimately show ?thesis by linarith
qed

lemma clampVelocity_sign:
  "x \<le> 0 \<Longrightarrow> clampVelocity x \<le> 0" "0 \<le> x \<Longrightarrow> 0 \<le> clampVelocity x"
  by (simp_all add: clampVelocity_def MAX_VELOCITY_def)

text \<open>
  One axis of a spring step from a position inside the bounds towards a target inside the
  bounds, bounce included: the energy shrinks by 0.9.
\<close>

lemma axis_energy:
  assumes "lo \<le> p" "p \<le> hi" "lo \<le> t" "t \<le> hi"
  shows "springEnergy
           (t - fst (bounceAxis lo hi (p + springVel (t - p) v)
                       (clampVelocity (springVel (t - p) v * FRICTION))))
           (snd (bounceAxis lo hi (p + springVel (t - p) v)
                   (clampVelocity (springVel (t - p) v * FRICTION))))
         \<le> 0.9 * springEnergy (t - p) v"
proof -
  let ?nv = "springVel (t - p) v"
  let ?w = "clampVelocity (?nv * FRICTION)"
  let ?e = "t - p - ?nv"
  have free: "springEnergy ?e ?w \<le> 0.9 * springEnergy (t - p) v"
    by (rule energy_decay)
  consider "p + ?nv < lo" | "hi < p + ?nv" | "lo \<le> p + ?nv" "p + ?nv \<le> hi"
    by linarith
  then show ?thesis
  proof cases
    case 1
    with assms(1) have "?nv \<le> 0" by linarith
    then have "?nv * FRICTION \<le> 0" by (simp add: FRICTION_def mult_le_0_iff)
    then have w: "?w \<le> 0" by (rule clampVelocity_sign)
    have "springEnergy (t - lo) (?w * (- BOUNCE_DAMPING)) \<le> springEnergy ?e ?w"
      using assms(3) 1 w by (intro bounce_low) simp_all
    with free 1 show ?thesis by (simp add: bounceAxis_def)
  next
    case 2
    with assms(2) have "0 \<le> ?nv" by linarith
    then have "0 \<le> ?nv * FRICTION" by (simp add: FRICTION_def)
    then have w: "0 \<le> ?w" by (rule clampVelocity_sign)
    have "springEnergy (t - hi) (?w * (- BOUNCE_DAMPING)) \<le> springEnergy ?e ?w"
      using assms(4) 2 w by (intro bounce_high) simp_all
    moreover from 2 assms(1,2) have "\<not> p + ?nv < lo" by linarith
    ultimately show ?thesis using free 2 by (simp add: bounceAxis_def)
  next
    case 3
    from free have "springEnergy (t - (p + ?nv)) ?w \<le> 0.9 * springEnergy (t - p) v"
      by (simp only: diff_diff_eq)
    with 3 show ?thesis by (simp add: bounceAxis_inside)
  qed
qed

lemma step_inside:
  assumes "inBounds (pipBounds vp s) t"
  shows "inBounds (pipBounds vp (updatePhysics vp s)) (currentPosition (updatePhysics vp s))"
proof -
  have b: "pipBounds vp (updatePhysics vp s) = pipBounds vp s"
    by (simp add: pipBounds_def)
  from assms have ne: "minX (pipBounds vp s) \<le> maxX (pipBounds vp s)"
    "minY (pipBounds vp s) \<le> maxY (pipBounds vp s)"
    by (simp_all add: inBounds_def)
  show ?thesis
    unfolding b inBounds_def updatePhysics_position
    using bounceAxis_range[OF ne(1)] bounceAxis_range[OF ne(2)]
    by (simp split: prod.splits)
qed

lemma step_spring:
  assumes "springing E t s" "\<not> snapCondition s t" "inBounds (pipBounds vp s) t"
    "inBounds (pipBounds vp s) (currentPosition s)"
  shows "springing (0.9 * E) t (updatePhysics vp s)"
proof -
  let ?b = "pipBounds vp s"
  let ?px = "fst (currentPosition s)" and ?py = "snd (currentPosition s)"
  let ?nx = "springVel (fst t - ?px) (fst (velocity s))"
  let ?ny = "springVel (snd t - ?py) (snd (velocity s))"
  let ?bx = "bounceAxis (minX ?b) (maxX ?b) (?px + ?nx) (clampVelocity (?nx * FRICTION))"
  let ?by = "bounceAxis (minY ?b) (maxY ?b) (?py + ?ny) (clampVelocity (?ny * FRICTION))"
  from assms(1) have tg: "targetPosition s = Some t" and af: "animationFrame s"
    and ex: "springEnergy (fst t - ?px) (fst (velocity s)) \<le> E"
    and ey: "springEnergy (snd t - ?py) (snd (velocity s)) \<le> E"
    by (simp_all add: springing_def)
  from assms(3,4) have
    bx: "minX ?b \<le> ?px" "?px \<le> maxX ?b" "minX ?b \<le> fst t" "fst t \<le> maxX ?b" and
    b2: "minY ?b \<le> ?py" "?py \<le> maxY ?b" "minY ?b \<le> snd t" "snd t \<le> maxY ?b"
    by (simp_all add: inBounds_def)
  have dx: "springEnergy (fst t - fst ?bx) (snd ?bx) \<le> 0.9 * E"
    using axis_energy[OF bx, of "fst (velocity s)"] ex by simp
  have dy: "springEnergy (snd t - fst ?by) (snd ?by) \<le> 0.9 * E"
    using axis_energy[OF b2, of "snd (velocity s)"] ey by simp
  have pos: "currentPosition (updatePhysics vp s) = (fst ?bx, fst ?by)"
    by (simp add: updatePhysics_position tg springStep_spring[OF assms(2)])
  have vel: "velocity (updatePhysics vp s) = (snd ?bx, snd ?by)"
    by (simp add: updatePhysics_velocity tg springStep_spring[OF assms(2)] Let_def)
  have tgt: "targetPosition (updatePhysics vp s) = Some t"
    by (simp add: updatePhysics_target tg springStep_spring[OF assms(2)])
  have an: "animationFrame (updatePhysics vp s)"
    by (simp add: updatePhysics_animationFrame tgt)
  show ?thesis
    unfolding springing_def pos vel using tgt an dx dy by simp
qed

lemma frame_bounds [simp]: "pipBounds vp (frame vp s) = pipBounds vp s"
  by (simp add: frame_def pipBounds_def)

lemma frames_bounds [simp]: "pipBounds vp (frames n vp s) = pipBounds vp s"
  by (induction n arbitrary: s) simp_all

lemma energy_nonneg: "0 \<le> springEnergy d v"
proof -
  have "0 \<le> (71 / 80) * (d * d)" by simp
  with energy_ge_d[of d v] show ?thesis by linarith
qed

lemma small_energy_snap:
  assumes "springing E t s" "E < 1 / 2"
  shows "snapCondition s t"
proof -
  from assms have
    "springEnergy (fst t - fst (currentPosition s)) (fst (velocity s)) < 1 / 2"
    "springEnergy (snd t - snd (currentPosition s)) (snd (velocity s)) < 1 / 2"
    by (simp_all add: springing_def)
  from small_energy[OF this(1)] small_energy[OF this(2)] show ?thesis
    by (simp add: snapCondition_def springVel_def)
qed

text \<open>The state of a spring run: at the target and at rest, or on its way inside the bounds.\<close>

lemma frame_spring:
  assumes "springing E t s" "inBounds (pipBounds vp s) t"
    "inBounds (pipBounds vp s) (currentPosition s)"
  shows "terminal t (frame vp s) \<or>
         springing (0.9 * E) t (frame vp s) \<and>
         inBounds (pipBounds vp s) (currentPosition (frame vp s))"
proof -
  from assms(1) have tg: "targetPosition s = Some t" and af: "animationFrame s"
    by (simp_all add: springing_def)
  from af have f: "frame vp s = updatePhysics vp s" by (simp add: frame_def)
  have ib: "inBounds (pipBounds vp s) (currentPosition (updatePhysics vp s))"
    using step_inside[OF assms(2)] by (simp add: pipBounds_def)
  show ?thesis
  proof (cases "snapCondition s t")
    case True
    from step_snap[OF tg True assms(2)] show ?thesis by (simp add: f)
  next
    case False
    from step_spring[OF assms(1) False assms(2,3)] ib show ?thesis by (simp add: f)
  qed
qed

lemma frames_spring:
  assumes "springing E t s" "inBounds (pipBounds vp s) t"
    "inBounds (pipBounds vp s) (currentPosition s)"
  shows "terminal t (frames n vp s) \<or>
         springing (0.9 ^ n * E) t (frames n vp s) \<and>
         inBounds (pipBounds vp s) (currentPosition (frames n vp s))"
proof (induction n)
  case 0
  from assms(1,3) show ?case by simp
next
  case (Suc n)
  let ?s = "frames n vp s"
  have eq: "frames (Suc n) vp s = frame vp ?s" by (rule frames_Suc_right)
  from Suc.IH show ?case
  proof
    assume t: "terminal t ?s"
    then have "frame vp ?s = ?s" by (simp add: terminal_def settled_def frame_def)
    with t show ?thesis unfolding eq by simp
  next
    assume a: "springing (0.9 ^ n * E) t ?s \<and>
               inBounds (pipBounds vp s) (currentPosition ?s)"
    then have sp: "springing (0.9 ^ n * E) t ?s"
      and ib: "inBounds (pipBounds vp ?s) (currentPosition ?s)" by simp_all
    have tb: "inBounds (pipBounds vp ?s) t" using assms(2) by simp
    from frame_spring[OF sp tb ib] show ?thesis
      unfolding eq by (simp add: mult.assoc)
  qed
qed

lemma spring_converges:
  assumes "springing E t s" "inBounds (pipBounds vp s) t"
    "inBounds (pipBounds vp s) (currentPosition s)" "0.9 ^ n * E < 1 / 2"
  shows "terminal t (frames (Suc n) vp s)"
proof -
  let ?s = "frames n vp s"
  have eq: "frames (Suc n) vp s = frame vp ?s" by (rule frames_Suc_right)
  from frames_spring[OF assms(1,2,3), of n] show ?thesis
  proof
    assume t: "terminal t ?s"
    then have "frame vp ?s = ?s" by (simp add: terminal_def settled_def frame_def)
    with t show ?thesis unfolding eq by simp
  next
    assume "springing (0.9 ^ n * E) t ?s \<and> inBounds (pipBounds vp s) (currentPosition ?s)"
    then have sp: "springing (0.9 ^ n * E) t ?s" by simp
    then have tg: "targetPosition ?s = Some t" and af: "animationFrame ?s"
      by (simp_all add: springing_def)
    have tb: "inBounds (pipBounds vp ?s) t" using assms(2) by simp
    from step_snap[OF tg small_energy_snap[OF sp assms(4)] tb] af show ?thesis
      unfolding eq by (simp add: frame_def)
  qed
qed

lemma terminal_stays:
  assumes "terminal t (frames n vp s)" "n \<le> m"
  shows "terminal t (frames m vp s)"
proof -
  from assms(2) obtain k where "m = n + k" by (auto simp: le_iff_add)
  moreover from assms(1) have "settled (frames n vp s)" by (simp add: terminal_def)
  ultimately show ?thesis using assms(1) by (simp add: frames_add frames_settled)
qed

lemma decay_exists: "\<exists>n. (0.9::real) ^ n * E < 1 / 2"
proof (cases "0 < E")
  case True
  then have "0 < 1 / (2 * E)" by simp
  from real_arch_pow_inv[OF this, of "0.9"] obtain n where "(0.9::real) ^ n < 1 / (2 * E)"
    by auto
  with True have "0.9 ^ n * E < 1 / 2" by (simp add: field_simps)
  then show ?thesis ..
next
  case False
  then have "(0.9::real) ^ 0 * E < 1 / 2" by simp
  then show ?thesis ..
qed

text \<open>
  From any position: the first step ends inside the bounds, and the run goes on from there
  with the energy it has then.
\<close>

lemma spring_converges_anywhere:
  assumes "targetPosition s = Some t" "animationFrame s" "inBounds (pipBounds vp s) t"
  shows "\<exists>N. \<forall>m\<ge>N. terminal t (frames m vp s)"
proof -
  let ?s1 = "updatePhysics vp s"
  from assms(2) have f1: "frames (Suc 0) vp s = ?s1" by (simp add: frame_def)
  have "\<exists>N. terminal t (frames N vp s)"
  proof (cases "snapCondition s t")
    case True
    from step_snap[OF assms(1) True assms(3)] f1 have "terminal t (frames (Suc 0) vp s)"
      by simp
    then show ?thesis ..
  next
    case False
    define E where "E = max (springEnergy (fst t - fst (currentPosition ?s1)) (fst (velocity ?s1)))
                            (springEnergy (snd t - snd (currentPosition ?s1)) (snd (velocity ?s1)))"
    have tgt: "targetPosition ?s1 = Some t"
      by (simp add: updatePhysics_target assms(1) springStep_spring[OF False])
    then have an: "animationFrame ?s1" by (simp add: updatePhysics_animationFrame)
    from tgt an have sp: "springing E t ?s1" by (simp add: springing_def E_def)
    have tb: "inBounds (pipBounds vp ?s1) t" using assms(3) by (simp add: pipBounds_def)
    have ib: "inBounds (pipBounds vp ?s1) (currentPosition ?s1)"
      by (rule step_inside[OF assms(3)])
    obtain n where "0.9 ^ n * E < 1 / 2" using decay_exists by blast
    from spring_converges[OF sp tb ib this] have "terminal t (frames (Suc n) vp ?s1)" .
    then have "terminal t (frames (Suc 0 + Suc n) vp s)"
      by (simp only: frames_add f1)
    then show ?thesis ..
  qed
  then obtain N where "terminal t (frames N vp s)" ..
  then have "\<forall>m\<ge>N. terminal t (frames m vp s)" using terminal_stays by blast
  then show ?thesis ..
qed

lemma fling_not_settled: "k < 40 \<Longrightarrow> \<not> settled (frames k vp0 fling)"
  using gliding_frames[of k] by (simp add: gliding_def settled_def)

lemma fling_least: "(LEAST n. settled (frames n vp0 fling)) = 40"
proof (rule Least_equality)
  show "settled (frames 40 vp0 fling)" by (rule fling_40)
next
  fix y assume "settled (frames y vp0 fling)"
  with fling_not_settled[of y] show "40 \<le> y" by (cases "y < 40") simp_all
qed

subsection \<open>Gaze classifier and repositioning policy\<close>

lemma classifyGaze_cases:
  "classifyGaze x = (if x < 0.45 then Some Left else if x > 0.55 then Some Right else None)"
  by (simp add: classifyGaze_def centerThreshold_def)

lemma handleMouseMove_commands [simp]:
  "commands (handleMouseMove vp c now t) = commands t"
  by (simp add: handleMouseMove_def Let_def)


lemma rerender_commands [simp]: "commands (rerender b old new) = commands new"
  by (simp add: rerender_def)

lemma fireReEngage_commands [simp]: "commands (fireReEngage now t) = commands t"
  by (simp add: fireReEngage_def split: option.splits)









lemma graceEffect_ref [simp]:
  "cursorMoveDebounceRef (graceEffect now t) = cursorMoveDebounceRef t"
  by (simp add: graceEffect_def)




section \<open>Bounds calculator: the rectangle\<close>

text \<open>
  C2. For either anchor side, any dimensions and any viewport, \<open>getViewportBounds\<close> returns
  the rectangle of the formulas: anchored left, \<open>minX = 0\<close> and
  \<open>maxX = viewportWidth - width - 2 * padding\<close>; anchored right, \<open>maxX = 0\<close> and
  \<open>minX = - (viewportWidth - 2 * padding - width)\<close>; on both sides
  \<open>minY = padding + height / 2 - viewportHeight / 2\<close> and
  \<open>maxY = viewportHeight / 2 - padding - height / 2\<close>, the padding being the constant 24.
  For a 1200 by 800 viewport and a 320 by 280 widget anchored left the rectangle is
  \<open>minX = 0\<close>, \<open>maxX = 832\<close>, \<open>minY = -236\<close>, \<open>maxY = 236\<close>.
\<close>

theorem getViewportBounds_formulas:
  "getViewportBounds Left d vp =
     \<lparr> minX = 0,
       maxX = innerWidth vp - width d - 2 * 24,
       minY = 24 + height d / 2 - innerHeight vp / 2,
       maxY = innerHeight vp / 2 - 24 - height d / 2 \<rparr>
   \<and> getViewportBounds Right d vp =
     \<lparr> minX = - (innerWidth vp - 2 * 24 - width d),
       maxX = 0,
       minY = 24 + height d / 2 - innerHeight vp / 2,
       maxY = innerHeight vp / 2 - 24 - height d / 2 \<rparr>
   \<and> getViewportBounds Left \<lparr> width = 320, height = 280 \<rparr>
         \<lparr> innerWidth = 1200, innerHeight = 800 \<rparr> =
     \<lparr> minX = 0, maxX = 832, minY = - 236, maxY = 236 \<rparr>"
  by (simp add: getViewportBounds_def VIEWPORT_PADDING_def Let_def)

section \<open>Anchor-side remap\<close>

text \<open>
  C3. Converting a stored \<open>x\<close> from anchor side \<open>A\<close> to side \<open>B\<close> and back to \<open>A\<close>, with the
  widget width and the viewport width unchanged, gives the original \<open>x\<close>. Over the reals
  the round trip is exact, for every pair of sides (also \<open>A = B\<close>). The same holds for the
  position stored by the side-change effect run twice, to \<open>B\<close> and back to the side the
  widget had.
\<close>

theorem convertX_round_trip:
  "convertX B A w viewportWidth (convertX A B w viewportWidth x0) = x0
   \<and> (side s = A \<longrightarrow>
        fst (currentPosition (sideChangeEffect vp A tv2 (sideChangeEffect vp B tv1 s)))
          = fst (currentPosition s))"
proof -
  have r: "convertX B A w viewportWidth (convertX A B w viewportWidth x0) = x0"
    for A B w viewportWidth x0
    by (simp add: convertX_def newPosX_def absoluteScreenX_def)
  have "fst (currentPosition (sideChangeEffect vp A tv2 (sideChangeEffect vp B tv1 s)))
          = fst (currentPosition s)" if "side s = A"
  proof (cases "A = B")
    case True
    with that show ?thesis by (simp add: sideChangeEffect_def)
  next
    case False
    with that have "fst (currentPosition (sideChangeEffect vp A tv2 (sideChangeEffect vp B tv1 s)))
      = convertX B A (width (currentDimensions s)) (innerWidth vp)
          (convertX A B (width (currentDimensions s)) (innerWidth vp) (fst (currentPosition s)))"
      by (simp add: sideChangeEffect_def startPhysics_def Let_def)
    then show ?thesis by (simp only: r)
  qed
  with r show ?thesis by blast
qed

theorem convertX_round_trip_witness:
  "side ((initialPip Left)\<lparr> currentPosition := (100, 20) \<rparr>) = Left
   \<and> fst (currentPosition
          (sideChangeEffect vp0 Left None
             (sideChangeEffect vp0 Right (Some Top)
                ((initialPip Left)\<lparr> currentPosition := (100, 20) \<rparr>)))) = 100
   \<and> convertX Left Right 320 1200 100 = - 732
   \<and> convertX Right Left 320 1200 (- 732) = 100"
proof -
  have a: "side ((initialPip Left)\<lparr> currentPosition := (100, 20) \<rparr>) = Left"
    by (simp add: initialPip_def)
  have b: "fst (currentPosition ((initialPip Left)\<lparr> currentPosition := (100, 20) \<rparr>)) = 100"
    by simp
  have c: "convertX Left Right 320 1200 100 = - 732" "convertX Right Left 320 1200 (- 732) = 100"
    by (simp_all add: convertX_def newPosX_def absoluteScreenX_def VIEWPORT_PADDING_def)
  from convertX_round_trip
         [where s = "(initialPip Left)\<lparr> currentPosition := (100, 20) \<rparr>" and A = Left
            and B = Right and vp = vp0 and ?tv1.0 = "Some Top" and ?tv2.0 = None]
    a b c
  show ?thesis by simp
qed

section \<open>Bounds containment\<close>

text \<open>
  C1. Valid geometry is read as: the padded widget fits into the viewport
  (\<open>width + 48 \<le> viewportWidth\<close> and \<open>height + 48 \<le> viewportHeight\<close>), so that the bounds
  rectangle is not empty. Then, for either anchor side, a position inside the bounds of the
  current side stays inside them after any sequence of drag starts, drag moves, drag
  releases (with the side synchronisation they cause), physics frames and side changes;
  and each drag move of a running drag, each drag release and each physics step leaves the
  position inside the bounds whatever it was before.
\<close>

theorem bounds_containment:
  assumes "fits (currentDimensions s) vp"
  shows "(inBounds (pipBounds vp s) (currentPosition s) \<longrightarrow>
           inBounds (pipBounds vp (run vp evs s)) (currentPosition (run vp evs s)))
       \<and> (isDragging s \<longrightarrow>
           inBounds (pipBounds vp (handleDragMove vp client now s))
             (currentPosition (handleDragMove vp client now s)))
       \<and> inBounds (pipBounds vp (handleDragEnd vp s)) (currentPosition (handleDragEnd vp s))
       \<and> inBounds (pipBounds vp (updatePhysics vp s)) (currentPosition (updatePhysics vp s))"
  using assms
  by (simp add: run_inBounds handleDragMove_inBounds handleDragEnd_inBounds
      updatePhysics_inBounds)

theorem bounds_containment_witness:
  "fits (currentDimensions (initialPip Left)) vp0
   \<and> inBounds (pipBounds vp0 (initialPip Left)) (currentPosition (initialPip Left))
   \<and> isDragging (handleDragStart False True (100, 100) 0 (initialPip Left))
   \<and> inBounds
        (pipBounds vp0
           (run vp0
              [DragStart (100, 100) 0, DragMove (150, 90) 16, DragEnd, Frame, Frame,
               SideChange Right (Some Center), Frame]
              (initialPip Left)))
        (currentPosition
           (run vp0
              [DragStart (100, 100) 0, DragMove (150, 90) 16, DragEnd, Frame, Frame,
               SideChange Right (Some Center), Frame]
              (initialPip Left)))
   \<and> currentPosition
        (handleDragMove vp0 (2000, 900) 16
           (handleDragStart False True (100, 100) 0 (initialPip Left))) = (832, 236)"
proof -
  have f: "fits (currentDimensions (initialPip Left)) vp0"
    by (simp add: pip_eval)
  have i: "inBounds (pipBounds vp0 (initialPip Left)) (currentPosition (initialPip Left))"
    by (simp add: pip_eval)
  have d: "isDragging (handleDragStart False True (100, 100) 0 (initialPip Left))"
    by (simp add: pip_eval)
  have m: "currentPosition
             (handleDragMove vp0 (2000, 900) 16
                (handleDragStart False True (100, 100) 0 (initialPip Left))) = (832, 236)"
    by (simp add: pip_eval)
  from bounds_containment[OF f] f i d m show ?thesis by blast
qed

section \<open>Velocity cap and resets\<close>

text \<open>
  C9, as the code has it. The cap of 15 per axis is applied inside the physics step only:
  the velocity left by every physics step has both components within \<open>[-15, 15]\<close>.
  The velocity is exactly zero after a drag start (pointer not on a control, no resize
  running), after a resize start, and after the physics step that snaps to the target.
  The fling velocity stored by a drag move and the velocity seeded by a side change are
  not capped.
\<close>

theorem velocity_cap_after_physics:
  "\<bar>fst (velocity (updatePhysics vp s))\<bar> \<le> MAX_VELOCITY
   \<and> \<bar>snd (velocity (updatePhysics vp s))\<bar> \<le> MAX_VELOCITY
   \<and> (\<not> isResizing s \<longrightarrow> velocity (handleDragStart False True client now s) = (0, 0))
   \<and> velocity (handleResizeStart True client rectRight rectTop wrapperRectLeft s) = (0, 0)
   \<and> (targetPosition s = Some t \<and> snapCondition s t \<longrightarrow>
        velocity (updatePhysics vp s) = (0, 0))"
  using updatePhysics_capped[of vp s]
  by (simp add: handleDragStart_def handleResizeStart_def updatePhysics_snap)

theorem velocity_cap_after_physics_witness:
  "velocity nearTarget = (0.2, - 0.1) \<and> \<not> isResizing nearTarget
   \<and> targetPosition nearTarget = Some (100.5, 50) \<and> snapCondition nearTarget (100.5, 50)
   \<and> velocity (handleDragStart False True (100, 100) 0 nearTarget) = (0, 0)
   \<and> velocity (handleResizeStart True (100, 100) 444 260 24 nearTarget) = (0, 0)
   \<and> velocity (updatePhysics vp0 nearTarget) = (0, 0)
   \<and> velocity flung = (100, - 50)
   \<and> velocity (updatePhysics vp0 flung) = (15, - 15)
   \<and> \<bar>fst (velocity (updatePhysics vp0 flung))\<bar> \<le> MAX_VELOCITY
   \<and> \<bar>snd (velocity (updatePhysics vp0 flung))\<bar> \<le> MAX_VELOCITY"
proof -
  have v: "velocity nearTarget = (0.2, - 0.1)" and r: "\<not> isResizing nearTarget"
    and t: "targetPosition nearTarget = Some (100.5, 50)"
    by (simp_all add: nearTarget_def initialPip_def)
  have c: "snapCondition nearTarget (100.5, 50)"
    by (simp add: snapCondition_def nearTarget_def initialPip_def physics_constants)
  note near = velocity_cap_after_physics
         [where vp = vp0 and s = nearTarget and client = "(100, 100)" and now = 0
            and rectRight = 444 and rectTop = 260 and wrapperRectLeft = 24
            and t = "(100.5, 50)"]
  from near r have d: "velocity (handleDragStart False True (100, 100) 0 nearTarget) = (0, 0)"
    by blast
  from near have z: "velocity (handleResizeStart True (100, 100) 444 260 24 nearTarget) = (0, 0)"
    by blast
  from near t c have p: "velocity (updatePhysics vp0 nearTarget) = (0, 0)"
    by blast
  have f: "velocity flung = (100, - 50)"
    by (simp add: flung_def)
  have g: "velocity (updatePhysics vp0 flung) = (15, - 15)"
    by (simp add: flung_def initialPip_def updatePhysics_velocity springStep_def pipBounds_def
        getViewportBounds_def vp0_def bounceAxis_def clampVelocity_def physics_constants
        Let_def)
  from velocity_cap_after_physics[where vp = vp0 and s = flung]
  have k: "\<bar>fst (velocity (updatePhysics vp0 flung))\<bar> \<le> MAX_VELOCITY"
    "\<bar>snd (velocity (updatePhysics vp0 flung))\<bar> \<le> MAX_VELOCITY"
    by blast+
  from v r t c d z p f g k show ?thesis by blast
qed

text \<open>
  The claim as stated fails: a drag move of 100 pixels in 16 ms from rest stores the fling
  velocity \<open>1667/64\<close> (about 26) on the x axis, and a side change of the widget resting at
  the left edge of a 1200 pixel wide viewport seeds the velocity 83.2.
\<close>

theorem velocity_cap_counterexample:
  "\<not> \<bar>fst (velocity (handleDragMove vp0 (200, 100) 16
               (handleDragStart False True (100, 100) 0 (initialPip Left))))\<bar> \<le> MAX_VELOCITY
   \<and> \<not> \<bar>fst (velocity (sideChangeEffect vp0 Right None (initialPip Left)))\<bar> \<le> MAX_VELOCITY"
  by (simp add: pip_eval sqrt_692224)

section \<open>Zone report\<close>

text \<open>
  C10. Every zone report carries a side, \<open>Left\<close> or \<open>Right\<close>: the per-frame report of
  \<open>updateDOM\<close> and the drag-end report (computed from the clamped position) give \<open>Left\<close>
  when the widget's centre is in the left third of the viewport, \<open>Right\<close> when it is in
  the right third, and the current anchor side when it is in the middle third.
\<close>

theorem zone_report_side:
  "(updateDOM_report mounted cb sd d vp pos = Some r \<longrightarrow>
      fst r = (if pipCenterX sd d vp pos < innerWidth vp / 3 then Left
               else if pipCenterX sd d vp pos > innerWidth vp * 2 / 3 then Right else sd))
   \<and> (handleDragEnd_report cb vp s = Some r' \<longrightarrow>
      fst r' = (let c = pipCenterX (side s) (currentDimensions s) vp
                          (clampPosition (side s) (currentDimensions s) vp (currentPosition s))
                in if c < innerWidth vp / 3 then Left
                   else if c > innerWidth vp * 2 / 3 then Right else side s))
   \<and> (innerWidth vp / 3 \<le> pipCenterX sd d vp pos \<and>
        pipCenterX sd d vp pos \<le> innerWidth vp * 2 / 3 \<longrightarrow>
        updateDOM_report True True sd d vp pos = Some (sd, snd (zoneOf sd d vp pos)))"
proof (intro conjI impI)
  assume "updateDOM_report mounted cb sd d vp pos = Some r"
  then have "r = zoneOf sd d vp pos" by (rule updateDOM_report_Some)
  then show "fst r = (if pipCenterX sd d vp pos < innerWidth vp / 3 then Left
               else if pipCenterX sd d vp pos > innerWidth vp * 2 / 3 then Right else sd)"
    by (simp only: zoneOf_side)
next
  assume "handleDragEnd_report cb vp s = Some r'"
  then have "r' = zoneOf (side s) (currentDimensions s) vp
         (clampPosition (side s) (currentDimensions s) vp (currentPosition s))"
    by (rule handleDragEnd_report_Some)
  then show "fst r' = (let c = pipCenterX (side s) (currentDimensions s) vp
                          (clampPosition (side s) (currentDimensions s) vp (currentPosition s))
                in if c < innerWidth vp / 3 then Left
                   else if c > innerWidth vp * 2 / 3 then Right else side s)"
    by (simp only: zoneOf_side Let_def)
next
  assume m: "innerWidth vp / 3 \<le> pipCenterX sd d vp pos \<and>
        pipCenterX sd d vp pos \<le> innerWidth vp * 2 / 3"
  have "fst (zoneOf sd d vp pos) = sd"
    using m by (simp add: zoneOf_side)
  then have "zoneOf sd d vp pos = (sd, snd (zoneOf sd d vp pos))"
    by (metis prod.collapse)
  then show "updateDOM_report True True sd d vp pos = Some (sd, snd (zoneOf sd d vp pos))"
    by (simp add: updateDOM_report_def)
qed

theorem zone_report_side_witness:
  "updateDOM_report True True Right \<lparr> width = 320, height = 280 \<rparr> vp0 (- 400, 0)
     = Some (Right, Center)
   \<and> fst (Right, Center) = Right
   \<and> 1200 / 3 \<le> pipCenterX Right \<lparr> width = 320, height = 280 \<rparr> vp0 (- 400, 0)
   \<and> pipCenterX Right \<lparr> width = 320, height = 280 \<rparr> vp0 (- 400, 0) \<le> 1200 * 2 / 3
   \<and> handleDragEnd_report True vp0 ((initialPip Right)\<lparr> currentPosition := (- 400, 0) \<rparr>)
     = Some (Right, Center)"
proof -
  have c: "pipCenterX Right \<lparr> width = 320, height = 280 \<rparr> vp0 (- 400, 0) = 616"
    by (simp add: pipCenterX_def vp0_def VIEWPORT_PADDING_def)
  have a: "updateDOM_report True True Right \<lparr> width = 320, height = 280 \<rparr> vp0 (- 400, 0)
     = Some (Right, Center)"
    by (simp add: updateDOM_report_def zoneOf_def pipCenterX_def vp0_def VIEWPORT_PADDING_def
        Let_def)
  have b: "handleDragEnd_report True vp0 ((initialPip Right)\<lparr> currentPosition := (- 400, 0) \<rparr>)
     = Some (Right, Center)"
    by (simp add: handleDragEnd_report_def initialPip_def clampPosition_def
        getViewportBounds_def zoneOf_def pipCenterX_def vp0_def VIEWPORT_PADDING_def Let_def)
  from zone_report_side
         [where mounted = True and cb = True and sd = Right
            and d = "\<lparr> width = 320, height = 280 \<rparr>" and vp = vp0 and pos = "(- 400, 0)"
            and r = "(Right, Center)" and r' = "(Right, Center)"
            and s = "(initialPip Right)\<lparr> currentPosition := (- 400, 0) \<rparr>"]
    a b c
  show ?thesis by simp
qed

section \<open>Settling\<close>

text \<open>
  C4. With no pending target and a frame scheduled, for every initial velocity and position
  the engine is at rest after at most 46 frames: the velocity is exactly zero, no frame is
  scheduled, and no later frame changes the state. For the drag released at the origin with
  fling velocity \<open>(8, 0)\<close> (friction 0.88, stop threshold 0.05) the velocity after 39
  frames is \<open>8 * 0.88 ^ 39\<close>, still at least the threshold; frame 40 takes it below the
  threshold, zeroes it and schedules no further frame, so that 40 is the least number of
  frames after which the run is at rest; and after 42 frames the engine is at rest, with
  zero velocity and no frame scheduled.
\<close>

theorem settling_termination:
  "(targetPosition s = None \<and> animationFrame s \<longrightarrow>
      settled (frames 46 vp s) \<and> (\<forall>m\<ge>46. frames m vp s = frames 46 vp s))
   \<and> velocity (frames 39 vp0 fling) = (8 * FRICTION ^ 39, 0)
   \<and> 0.05 \<le> 8 * FRICTION ^ 39 \<and> 8 * FRICTION ^ 40 < 0.05
   \<and> (LEAST n. settled (frames n vp0 fling)) = 40
   \<and> settled (frames 40 vp0 fling)
   \<and> (\<forall>m\<ge>40. frames m vp0 fling = frames 40 vp0 fling)
   \<and> velocity (frames 42 vp0 fling) = (0, 0) \<and> \<not> animationFrame (frames 42 vp0 fling)"
proof (intro conjI impI allI)
  assume a: "targetPosition s = None \<and> animationFrame s"
  then show s46: "settled (frames 46 vp s)" by (simp add: settles_within_46)
  fix m :: nat assume "46 \<le> m"
  with s46 show "frames m vp s = frames 46 vp s" by (rule settled_stays)
next
  show "(LEAST n. settled (frames n vp0 fling)) = 40" by (rule fling_least)
  show "settled (frames 40 vp0 fling)" by (rule fling_40)
  show "velocity (frames 39 vp0 fling) = (8 * FRICTION ^ 39, 0)" by (rule fling_39)
  show "0.05 \<le> 8 * FRICTION ^ 39" by (rule threshold_39)
  show "8 * FRICTION ^ 40 < 0.05" by (rule threshold_40)
  have e: "frames 42 vp0 fling = frames 40 vp0 fling"
    using fling_40 by (rule settled_stays) simp
  show "velocity (frames 42 vp0 fling) = (0, 0)" "\<not> animationFrame (frames 42 vp0 fling)"
    using fling_40 unfolding e settled_def by blast+
next
  fix m :: nat assume "40 \<le> m"
  with fling_40 show "frames m vp0 fling = frames 40 vp0 fling" by (rule settled_stays)
qed

theorem settling_termination_witness:
  "targetPosition fling = None \<and> animationFrame fling \<and> velocity fling = (8, 0)
   \<and> settled (frames 46 vp0 fling) \<and> frames 50 vp0 fling = frames 46 vp0 fling"
proof -
  have a: "targetPosition fling = None" "animationFrame fling" "velocity fling = (8, 0)"
    using gliding_0 by (simp_all add: gliding_def)
  from settling_termination[where s = fling and vp = vp0] a
  have s: "settled (frames 46 vp0 fling)"
    and st: "\<forall>m\<ge>46. frames m vp0 fling = frames 46 vp0 fling"
    by blast+
  have "(46::nat) \<le> 50" by simp
  with st have "frames 50 vp0 fling = frames 46 vp0 fling" by blast
  with a s show ?thesis by blast
qed

section \<open>Spring convergence and snap\<close>

text \<open>
  C5. A target is reachable without boundary obstruction when it lies inside the bounds
  (on a bound included, as every target the side-change effect sets does). Let the energy
  \<open>d\<^sup>2 - 3 d v + 20 v\<^sup>2\<close> of each axis (\<open>d\<close> the displacement to the target, \<open>v\<close> the
  velocity) be at most \<open>E\<close> at the start. Then every spring run towards such a target,
  bounces off the bounds included, reaches the terminal state and stays there: position
  exactly the target, zero velocity, no pending target, no frame scheduled. From a position
  inside the bounds it has reached it after \<open>n + 1\<close> frames for every \<open>n\<close> with
  \<open>0.9 ^ n * E < 1/2\<close>. And a step taken when the snap test holds (both displacements
  under 1, both velocity components after spring force and damping under 0.3) is terminal
  at once.
\<close>

theorem spring_convergence:
  assumes "targetPosition s = Some t" and "animationFrame s"
    and "inBounds (pipBounds vp s) t"
    and "springEnergy (fst t - fst (currentPosition s)) (fst (velocity s)) \<le> E"
    and "springEnergy (snd t - snd (currentPosition s)) (snd (velocity s)) \<le> E"
  shows "(\<exists>N. \<forall>m\<ge>N. terminal t (frames m vp s))
       \<and> (inBounds (pipBounds vp s) (currentPosition s) \<longrightarrow>
            (\<forall>n. 0.9 ^ n * E < 1 / 2 \<longrightarrow> (\<forall>m\<ge>Suc n. terminal t (frames m vp s))))
       \<and> (snapCondition s t \<longrightarrow> terminal t (updatePhysics vp s))"
proof -
  from assms(1,2,4,5) have sp: "springing E t s" by (simp add: springing_def)
  have a: "\<exists>N. \<forall>m\<ge>N. terminal t (frames m vp s)"
    by (rule spring_converges_anywhere[OF assms(1,2,3)])
  have b: "\<forall>m\<ge>Suc n. terminal t (frames m vp s)"
    if "inBounds (pipBounds vp s) (currentPosition s)" "0.9 ^ n * E < 1 / 2" for n
    using spring_converges[OF sp assms(3) that] terminal_stays by blast
  have c: "snapCondition s t \<longrightarrow> terminal t (updatePhysics vp s)"
    using step_snap[OF assms(1) _ assms(3)] by blast
  from a b c show ?thesis by blast
qed

lemma sideChanged_state:
  "side sideChanged = Right" "currentDimensions sideChanged = \<lparr> width = 320, height = 280 \<rparr>"
  "currentPosition sideChanged = (- 832, 0)" "velocity sideChanged = (416 / 5, 0)"
  "targetPosition sideChanged = Some (0, 0)" "animationFrame sideChanged"
  by (simp_all add: sideChanged_def pip_eval sqrt_692224)

theorem spring_convergence_witness:
  "targetPosition sideChanged = Some (0, 0) \<and> animationFrame sideChanged
   \<and> currentPosition sideChanged = (- 832, 0) \<and> velocity sideChanged = (416 / 5, 0)
   \<and> inBounds (pipBounds vp0 sideChanged) (0, 0)
   \<and> inBounds (pipBounds vp0 sideChanged) (currentPosition sideChanged)
   \<and> springEnergy (fst (0::real, 0::real) - fst (currentPosition sideChanged))
        (fst (velocity sideChanged)) \<le> 623002
   \<and> springEnergy (snd (0::real, 0::real) - snd (currentPosition sideChanged))
        (snd (velocity sideChanged)) \<le> 623002
   \<and> 0.9 ^ 134 * (623002::real) < 1 / 2
   \<and> terminal (0, 0) (frames 135 vp0 sideChanged)
   \<and> (\<exists>N. \<forall>m\<ge>N. terminal (0, 0) (frames m vp0 sideChanged))"
proof -
  note st = sideChanged_state
  have pb: "pipBounds vp0 sideChanged = \<lparr> minX = - 832, maxX = 0, minY = - 236, maxY = 236 \<rparr>"
    by (simp add: pipBounds_def st getViewportBounds_def vp0_def VIEWPORT_PADDING_def)
  have h3: "inBounds (pipBounds vp0 sideChanged) (0, 0)"
    and h3p: "inBounds (pipBounds vp0 sideChanged) (currentPosition sideChanged)"
    by (simp_all add: pb st inBounds_def)
  have h4: "springEnergy (fst (0::real, 0::real) - fst (currentPosition sideChanged))
              (fst (velocity sideChanged)) \<le> 623002"
    and h5: "springEnergy (snd (0::real, 0::real) - snd (currentPosition sideChanged))
              (snd (velocity sideChanged)) \<le> 623002"
    by (simp_all add: springEnergy_def st)
  have h7: "0.9 ^ 134 * (623002::real) < 1 / 2" by (simp add: power_divide)
  note sc = spring_convergence[OF st(5) st(6) h3 h4 h5]
  have n: "(135::nat) = Suc 134" by simp
  from sc h3p h7 have "\<forall>m\<ge>Suc 134. terminal (0, 0) (frames m vp0 sideChanged)" by blast
  then have t135: "terminal (0, 0) (frames 135 vp0 sideChanged)" unfolding n by blast
  from sc have ex: "\<exists>N. \<forall>m\<ge>N. terminal (0, 0) (frames m vp0 sideChanged)" by blast
  from st(5) st(6) st(3) st(4) h3 h3p h4 h5 h7 t135 ex show ?thesis by blast
qed

section \<open>Gaze dead-zone\<close>

text \<open>
  C6. With \<open>d = 0.05\<close> the classifier gives left for a normalized gaze \<open>x < 0.5 - d\<close>, right
  for \<open>x > 0.5 + d\<close> and null otherwise. So every frame of a gaze that moves strictly
  inside the dead-zone sets the gaze side to null, never to left or right.
\<close>

theorem gaze_dead_zone:
  "(x < 0.5 - 0.05 \<longrightarrow> classifyGaze x = Some Left)
   \<and> (x > 0.5 + 0.05 \<longrightarrow> classifyGaze x = Some Right)
   \<and> (0.5 - 0.05 \<le> x \<and> x \<le> 0.5 + 0.05 \<longrightarrow> classifyGaze x = None)
   \<and> ((\<forall>z \<in> set zs. 0.5 - 0.05 < z \<and> z < 0.5 + 0.05) \<longrightarrow>
        map (\<lambda>z. gazeSide (detect (Gaze z y) t)) zs = replicate (length zs) None)"
proof -
  have "map (\<lambda>z. gazeSide (detect (Gaze z y) t)) zs = replicate (length zs) None"
    if "\<forall>z \<in> set zs. 0.5 - 0.05 < z \<and> z < 0.5 + 0.05"
    using that by (induction zs) (simp_all add: detect_def classifyGaze_cases)
  then show ?thesis by (simp add: classifyGaze_cases)
qed

theorem gaze_dead_zone_witness:
  "classifyGaze 0.3 = Some Left \<and> classifyGaze 0.7 = Some Right \<and> classifyGaze 0.5 = None
   \<and> map (\<lambda>z. gazeSide (detect (Gaze z 0.5) tracker0)) [0.46, 0.54, 0.451, 0.549]
       = replicate (length [0.46, 0.54, 0.451, 0.549 :: real]) None"
proof -
  have a: "\<forall>z \<in> set [0.46, 0.54, 0.451, 0.549 :: real]. 0.5 - 0.05 < z \<and> z < 0.5 + 0.05"
    by simp
  have b: "(0.3::real) < 0.5 - 0.05" "(0.7::real) > 0.5 + 0.05"
    "(0.5::real) - 0.05 \<le> 0.5 \<and> (0.5::real) \<le> 0.5 + 0.05" by simp_all
  from gaze_dead_zone[of "0.3"] gaze_dead_zone[of "0.7"] b
    gaze_dead_zone[of "0.5" "[0.46, 0.54, 0.451, 0.549]" "0.5" tracker0] a
  show ?thesis by blast
qed

section \<open>Detection failure\<close>

text \<open>
  C8, as the code has it. On a frame on which the detector throws or reports no face,
  \<open>detect\<close> sets nothing: the gaze side, the last definitive side and the eye position keep
  their previous values (no null is emitted), and the next animation frame is requested,
  so the loop goes on.
\<close>

theorem detection_failure_skips:
  "detect DetectorThrows t = t\<lparr> animationRef := True \<rparr>
   \<and> detect NoFace t = t\<lparr> animationRef := True \<rparr>
   \<and> gazeSide (detect DetectorThrows t) = gazeSide t
   \<and> gazeSide (detect NoFace t) = gazeSide t
   \<and> animationRef (detect DetectorThrows t) \<and> animationRef (detect NoFace t)"
  by (simp add: detect_def)

text \<open>
  The claim as stated fails: after a frame that classified the gaze as left, a frame on
  which the detector throws, or finds no face, leaves the gaze side at left, not null.
\<close>

theorem detection_failure_counterexample:
  "gazeSide (trackerRun vp0 [DetectFrame (Gaze 0.2 0.5) 0, DetectFrame DetectorThrows 16] tracker0)
     = Some Left
   \<and> gazeSide (trackerRun vp0 [DetectFrame (Gaze 0.2 0.5) 0, DetectFrame NoFace 16] tracker0)
     = Some Left"
  by (simp add: tracker0_def detect_def classifyGaze_cases rerender_def policyDeps_def
      graceEffect_def)

section \<open>Cursor-entry edge detection\<close>




end
